theory Spec2Isabelle
  imports Main "HOL-Library.Char_ord" "HOL-Library.List_Lexorder"
begin

section \<open>Display helpers of plex\_sync.py\<close>

text \<open>
  Python's \<open>str\<close> on an unbounded integer: decimal digits, a leading minus sign for a
  negative number.
\<close>

definition digit_char :: "nat \<Rightarrow> char" where
  "digit_char n = ''0123456789'' ! (n mod 10)"

fun digits_of :: "nat \<Rightarrow> string" where
  "digits_of n = (if n < 10 then [digit_char n] else digits_of (n div 10) @ [digit_char n])"

declare digits_of.simps [simp del]

definition str_int :: "int \<Rightarrow> string" where
  "str_int i = (if i < 0 then CHR ''-'' # digits_of (nat (- i)) else digits_of (nat i))"

text \<open>
  \<open>round(a / b)\<close> for integers \<open>a\<close> and \<open>b > 0\<close>: Python 3 rounds the quotient to the
  nearest integer and a tie to the even neighbour. The quotient of two integers is a
  correctly rounded double, so a tie is seen exactly when \<open>2 * (a mod b) = b\<close>; the
  definition is the exact value of the expression as long as the quotient stays within
  the 53-bit range where a double still has a fractional part.
\<close>

definition py_round_div :: "int \<Rightarrow> int \<Rightarrow> int" where
  "py_round_div a b =
     (let q = a div b; r = a mod b
      in if 2 * r < b then q
         else if b < 2 * r then q + 1
         else if even q then q else q + 1)"

text \<open>
  \<open>human_readable_duration\<close> (plex\_sync.py, lines 149-156). \<open>duration_minutes\<close> is the
  value of the local \<open>total_minutes\<close> at the \<open>return\<close>; the function itself renders it.
\<close>

definition duration_minutes :: "int \<Rightarrow> int" where
  "duration_minutes total_milliseconds =
     (let total_seconds = total_milliseconds div 1000;
          total_minutes = py_round_div total_seconds 60
      in if total_minutes = 0 \<and> total_seconds > 0 then 1 else total_minutes)"

definition human_readable_duration :: "int \<Rightarrow> string" where
  "human_readable_duration total_milliseconds =
     (let total_minutes = duration_minutes total_milliseconds
      in str_int total_minutes @ '' min'' @ (if total_minutes \<noteq> 1 then ''s'' else ''''))"

section \<open>The persisted store\<close>

text \<open>
  A cell of a table. \<open>Hash\<close> is the fingerprint computed by \<open>calculate_media_hash\<close>:
  the MD5 digest of the seven attributes joined in a fixed order, kept here as the tuple
  of its arguments (two fingerprints are compared for equality only). \<open>SizeText n\<close> is
  the text \<open>human_readable_size(n)\<close>, a two-decimal rendering of a floating-point
  quotient that is kept symbolic.
\<close>

datatype media_hash =
  MediaHash int int "string option" "string option" "string option" string "int option"

datatype val = Null | I int | T string | Hash media_hash | SizeText int

text \<open>The exceptions of sqlite3 and of Python that the sync code can meet.\<close>

datatype sql_error =
  NoSuchTable | NoSuchColumn | DuplicateColumn | NoSuchModule | ValueCountMismatch

datatype error = OperationalError sql_error | IntegrityError | ProgrammingError

text \<open>
  A stored row maps column names to cells, in the order of the table's columns. A table
  has its column names and its rows; the store maps table names to tables. A connection
  sees its own uncommitted changes (\<open>live\<close>); \<open>durable\<close> is what has been committed
  and survives the end of the process.
\<close>

type_synonym row = "(string \<times> val) list"

record table =
  cols :: "string list"
  rows :: "row list"

type_synonym store = "string \<Rightarrow> table option"

record conn =
  live :: store
  durable :: store

datatype outcome = Done conn | Raised error conn

fun conn_of :: "outcome \<Rightarrow> conn" where
  "conn_of (Done c) = c"
| "conn_of (Raised e c) = c"

definition commit :: "conn \<Rightarrow> conn" where
  "commit c = c\<lparr>durable := live c\<rparr>"

definition cell :: "row \<Rightarrow> string \<Rightarrow> val" where
  "cell r c = (case map_of r c of Some v \<Rightarrow> v | None \<Rightarrow> Null)"

definition set_cell :: "row \<Rightarrow> string \<Rightarrow> val \<Rightarrow> row" where
  "set_cell r c v = map (\<lambda>(c', x). if c' = c then (c', v) else (c', x)) r"

text \<open>
  The conditions of the \<open>WHERE\<close> clauses of the source: \<open>col = ?\<close> and
  \<open>col NOT IN (?, ..., ?)\<close>. A comparison with a NULL cell is not true in SQL.
\<close>

datatype cond = Eq string val | NotIn string "val list"

fun cond_col :: "cond \<Rightarrow> string" where
  "cond_col (Eq c v) = c"
| "cond_col (NotIn c vs) = c"

fun cond_holds :: "row \<Rightarrow> cond \<Rightarrow> bool" where
  "cond_holds r (Eq c v) = (cell r c \<noteq> Null \<and> cell r c = v)"
| "cond_holds r (NotIn c vs) = (cell r c \<noteq> Null \<and> cell r c \<notin> set vs)"

text \<open>
  \<open>UPDATE tname SET setcol = v WHERE cond AND ... AND cond\<close> on one of the seven
  ordinary tables. The statement fails with \<open>sqlite3.OperationalError\<close> when the table
  or one of the named columns does not exist, and then changes nothing.
\<close>

definition sql_update :: "store \<Rightarrow> string \<Rightarrow> string \<Rightarrow> val \<Rightarrow> cond list \<Rightarrow> error + store" where
  "sql_update s tname setcol v conds =
     (case s tname of
        None \<Rightarrow> Inl (OperationalError NoSuchTable)
      | Some t \<Rightarrow>
          if setcol \<notin> set (cols t) \<or> (\<exists>c \<in> set conds. cond_col c \<notin> set (cols t))
          then Inl (OperationalError NoSuchColumn)
          else Inr (s(tname \<mapsto>
                 t\<lparr>rows := map (\<lambda>r. if list_all (cond_holds r) conds
                                    then set_cell r setcol v else r) (rows t)\<rparr>)))"

text \<open>
  The full-text index \<open>search_fts\<close> is created as a contentless FTS5 table
  (\<open>content=''\<close> together with \<open>content_rowid='ratingKey'\<close>, lines 1012-1023). Such
  a table accepts an \<open>INSERT\<close> and keeps no column value, and SQLite refuses every
  statement that has to read a row of it: each \<open>UPDATE search_fts ... WHERE ...\<close> fails
  with \<open>OperationalError: no such column: T.ratingKey\<close> and changes nothing. In the
  store the index is the table named \<open>search_fts\<close>; it has no stored column, and a row
  of it is an entry without cells.
\<close>

definition update_search_fts :: "store \<Rightarrow> string \<Rightarrow> val \<Rightarrow> cond list \<Rightarrow> error + store" where
  "update_search_fts s setcol v conds =
     (case s ''search_fts'' of
        None \<Rightarrow> Inl (OperationalError NoSuchTable)
      | Some f \<Rightarrow> Inl (OperationalError NoSuchColumn))"

text \<open>
  \<open>mark_unavailable\<close> (plex\_sync.py, lines 1057-1100). The first \<open>UPDATE\<close> is outside
  any \<open>try\<close>, so its error leaves the function; it is committed before the search index
  is touched. An \<open>OperationalError\<close> of the index update is swallowed, and the commit
  after that update is skipped with it. The log line that uses \<open>library_type\<close> is not
  modelled.
\<close>

definition searchable_tables :: "string list" where
  "searchable_tables = [''movies'', ''tv_shows'', ''artists'']"

definition type_map :: "string \<Rightarrow> string option" where
  "type_map = map_of [(''movies'', ''movie''), (''tv_shows'', ''show''), (''artists'', ''artist'')]"

definition unseen_conds :: "string \<Rightarrow> int list \<Rightarrow> cond list" where
  "unseen_conds key_column seen_keys =
     (if seen_keys = [] then [Eq ''available'' (I 1)]
      else [NotIn key_column (map I seen_keys), Eq ''available'' (I 1)])"

definition mark_unavailable :: "conn \<Rightarrow> string \<Rightarrow> int list \<Rightarrow> string \<Rightarrow> string \<Rightarrow> outcome" where
  "mark_unavailable c table_name seen_keys library_type key_column =
     (case sql_update (live c) table_name ''available'' (I 0) (unseen_conds key_column seen_keys) of
        Inl e \<Rightarrow> Raised e c
      | Inr s1 \<Rightarrow>
          let c1 = commit (c\<lparr>live := s1\<rparr>)
          in if table_name \<in> set searchable_tables then
               (case type_map table_name of
                  None \<Rightarrow> Done c1
                | Some fts_type \<Rightarrow>
                    (case update_search_fts (live c1) ''available'' (I 0)
                            (Eq ''type'' (T fts_type) # unseen_conds ''ratingKey'' seen_keys) of
                       Inl (OperationalError m) \<Rightarrow> Done c1
                     | Inl e \<Rightarrow> Raised e c1
                     | Inr s2 \<Rightarrow> Done (commit (c1\<lparr>live := s2\<rparr>))))
             else Done c1)"

text \<open>The default value of the parameter \<open>key_column\<close>.\<close>

definition mark_unavailable_default :: "conn \<Rightarrow> string \<Rightarrow> int list \<Rightarrow> string \<Rightarrow> outcome" where
  "mark_unavailable_default c table_name seen_keys library_type =
     mark_unavailable c table_name seen_keys library_type ''ratingKey''"

section \<open>The schema created by init\_database\<close>

text \<open>
  The column lists of the \<open>CREATE TABLE\<close> statements of \<open>init_database\<close>
  (plex\_sync.py, lines 805-992 and 1012-1023), in the order of the source.
\<close>

definition movies_cols :: "string list" where
  "movies_cols = [''ratingKey'', ''title'', ''year'', ''contentRating'', ''duration'',
     ''durationHuman'', ''audioCodec'', ''container'', ''videoCodec'', ''videoResolution'',
     ''sizeBytes'', ''sizeHuman'', ''mediaHash'', ''summary'', ''tagline'', ''genres'',
     ''studio'', ''directors'', ''writers'', ''producers'', ''actors'',
     ''originallyAvailableAt'', ''rating'', ''audienceRating'', ''available'', ''lastSeen'']"

definition tv_shows_cols :: "string list" where
  "tv_shows_cols = [''ratingKey'', ''title'', ''contentRating'', ''avgEpisodeDuration'',
     ''avgEpisodeDurationHuman'', ''seasonCount'', ''showTotalEpisode'', ''showSizeBytes'',
     ''showSizeHuman'', ''avgVideoResolutions'', ''avgAudioCodecs'', ''avgVideoCodecs'',
     ''avgContainers'', ''showYearRange'', ''summary'', ''genres'', ''studio'', ''actors'',
     ''originallyAvailableAt'', ''rating'', ''audienceRating'', ''available'', ''lastSeen'']"

definition seasons_cols :: "string list" where
  "seasons_cols = [''seasonRatingKey'', ''showRatingKey'', ''seasonNumber'',
     ''seasonTotalEpisode'', ''avgSeasonEpisodeDuration'', ''avgSeasonEpisodeDurationHuman'',
     ''seasonSizeBytes'', ''seasonSizeHuman'', ''avgSeasonVideoResolution'',
     ''avgSeasonAudioCodec'', ''avgSeasonVideoCodec'', ''avgSeasonContainer'', ''yearRange'',
     ''summary'', ''title'', ''originallyAvailableAt'', ''available'', ''lastSeen'']"

definition episodes_cols :: "string list" where
  "episodes_cols = [''ratingKey'', ''seasonRatingKey'', ''showRatingKey'', ''episodeNumber'',
     ''title'', ''year'', ''duration'', ''durationHuman'', ''audioCodec'', ''container'',
     ''videoCodec'', ''videoResolution'', ''sizeBytes'', ''sizeHuman'', ''mediaHash'',
     ''summary'', ''originallyAvailableAt'', ''directors'', ''writers'', ''actors'',
     ''rating'', ''audienceRating'', ''available'', ''lastSeen'']"

definition artists_cols :: "string list" where
  "artists_cols = [''ratingKey'', ''artistName'', ''totalAlbums'', ''totalTracks'',
     ''totalSizeBytes'', ''totalSizeHuman'', ''yearRange'', ''summary'', ''genres'',
     ''available'', ''lastSeen'']"

definition albums_cols :: "string list" where
  "albums_cols = [''ratingKey'', ''artistRatingKey'', ''title'', ''year'', ''tracks'',
     ''albumSizeBytes'', ''albumSizeHuman'', ''albumDuration'', ''albumDurationHuman'',
     ''albumContainers'', ''summary'', ''genres'', ''originallyAvailableAt'', ''studio'',
     ''available'', ''lastSeen'']"

definition tracks_cols :: "string list" where
  "tracks_cols = [''ratingKey'', ''albumRatingKey'', ''artistRatingKey'', ''title'',
     ''trackNumber'', ''duration'', ''durationHuman'', ''sizeBytes'', ''sizeHuman'',
     ''container'', ''mediaHash'', ''summary'', ''originallyAvailableAt'', ''genres'',
     ''available'', ''lastSeen'']"

text \<open>The columns that the declaration of the index names; an \<open>INSERT\<close> may list them.\<close>

definition search_fts_cols :: "string list" where
  "search_fts_cols = [''type'', ''ratingKey'', ''title'', ''summary'', ''year'', ''available'']"

definition declared_cols :: "string \<Rightarrow> table \<Rightarrow> string list" where
  "declared_cols tname t = (if tname = ''search_fts'' then search_fts_cols else cols t)"

text \<open>
  The constraints of those statements: the \<open>INTEGER PRIMARY KEY\<close> column of each
  table, its \<open>NOT NULL\<close> columns, and the \<open>FOREIGN KEY ... ON DELETE CASCADE\<close>
  clauses, read from the parent's side (\<open>referencing parent\<close> lists the child tables
  and their referencing columns). The connection runs with \<open>PRAGMA foreign_keys = ON\<close>.
\<close>

definition primary_key :: "string \<Rightarrow> string option" where
  "primary_key = map_of
     [(''movies'', ''ratingKey''), (''tv_shows'', ''ratingKey''),
      (''seasons'', ''seasonRatingKey''), (''episodes'', ''ratingKey''),
      (''artists'', ''ratingKey''), (''albums'', ''ratingKey''), (''tracks'', ''ratingKey'')]"

definition not_null_cols :: "string \<Rightarrow> string list" where
  "not_null_cols tname =
     (case map_of
        [(''movies'', [''title'']), (''tv_shows'', [''title'']),
         (''seasons'', [''showRatingKey'']),
         (''episodes'', [''seasonRatingKey'', ''showRatingKey'']),
         (''artists'', [''artistName'']),
         (''albums'', [''artistRatingKey'', ''title'']),
         (''tracks'', [''albumRatingKey'', ''artistRatingKey'', ''title''])] tname of
        Some cs \<Rightarrow> cs | None \<Rightarrow> [])"

definition foreign_keys :: "string \<Rightarrow> (string \<times> string) list" where
  "foreign_keys tname =
     (case map_of
        [(''seasons'', [(''showRatingKey'', ''tv_shows'')]),
         (''episodes'', [(''seasonRatingKey'', ''seasons''), (''showRatingKey'', ''tv_shows'')]),
         (''albums'', [(''artistRatingKey'', ''artists'')]),
         (''tracks'', [(''albumRatingKey'', ''albums''), (''artistRatingKey'', ''artists'')])] tname of
        Some fs \<Rightarrow> fs | None \<Rightarrow> [])"

definition referencing :: "string \<Rightarrow> (string \<times> string) list" where
  "referencing parent =
     (case map_of
        [(''tv_shows'', [(''seasons'', ''showRatingKey''), (''episodes'', ''showRatingKey'')]),
         (''seasons'', [(''episodes'', ''seasonRatingKey'')]),
         (''artists'', [(''albums'', ''artistRatingKey''), (''tracks'', ''artistRatingKey'')]),
         (''albums'', [(''tracks'', ''albumRatingKey'')])] parent of
        Some cs \<Rightarrow> cs | None \<Rightarrow> [])"

definition empty_table :: "string list \<Rightarrow> table" where
  "empty_table cs = \<lparr>cols = cs, rows = []\<rparr>"

text \<open>
  The store of a database file that \<open>init_database\<close> has just created; \<open>fts5\<close> says
  whether the SQLite build has the full-text module, without which \<open>search_fts\<close> is
  not created. The index is contentless: it stores no column and starts without entries
  (the tables it is filled from are empty).
\<close>

definition init_store :: "bool \<Rightarrow> store" where
  "init_store fts5 =
     (map_of
        [(''movies'', empty_table movies_cols), (''tv_shows'', empty_table tv_shows_cols),
         (''seasons'', empty_table seasons_cols), (''episodes'', empty_table episodes_cols),
         (''artists'', empty_table artists_cols), (''albums'', empty_table albums_cols),
         (''tracks'', empty_table tracks_cols)])
     (''search_fts'' := (if fts5 then Some (empty_table []) else None))"

section \<open>INSERT OR REPLACE\<close>

text \<open>
  A value expression of a \<open>VALUES\<close> list: a placeholder \<open>?\<close>, a literal, or
  \<open>COALESCE(?, lit)\<close>. Binding consumes one parameter of the tuple for every
  placeholder; a tuple of another length is refused by the sqlite3 module
  (\<open>ProgrammingError\<close>).
\<close>

datatype vexpr = Param | Lit val | CoalesceParam val

fun placeholders :: "vexpr list \<Rightarrow> nat" where
  "placeholders [] = 0"
| "placeholders (Lit v # es) = placeholders es"
| "placeholders (e # es) = Suc (placeholders es)"

fun bind_values :: "vexpr list \<Rightarrow> val list \<Rightarrow> val list" where
  "bind_values [] ps = []"
| "bind_values (Lit v # es) ps = v # bind_values es ps"
| "bind_values (Param # es) (p # ps) = p # bind_values es ps"
| "bind_values (CoalesceParam d # es) (p # ps) = (if p = Null then d else p) # bind_values es ps"
| "bind_values (e # es) [] = []"

text \<open>
  Deleting the rows of \<open>tname\<close> whose column \<open>col\<close> holds one of \<open>vs\<close>, and, through
  \<open>ON DELETE CASCADE\<close>, the rows that reference them. The tables of this schema form
  three levels, so a cascade that starts at a child of the replaced row ends one level
  below it.
\<close>

definition delete_rows :: "store \<Rightarrow> string \<Rightarrow> string \<Rightarrow> val list \<Rightarrow> store" where
  "delete_rows s tname col vs =
     (case s tname of
        None \<Rightarrow> s
      | Some t \<Rightarrow> s(tname \<mapsto> t\<lparr>rows := filter (\<lambda>r. cell r col \<notin> set vs) (rows t)\<rparr>))"

definition delete_rows_cascade :: "store \<Rightarrow> string \<Rightarrow> string \<Rightarrow> val list \<Rightarrow> store" where
  "delete_rows_cascade s tname col vs =
     (case s tname of
        None \<Rightarrow> s
      | Some t \<Rightarrow>
          let gone = filter (\<lambda>r. cell r col \<in> set vs) (rows t);
              ks = (case primary_key tname of
                      None \<Rightarrow> [] | Some pk \<Rightarrow> map (\<lambda>r. cell r pk) gone)
          in foldl (\<lambda>s' (child, ccol). delete_rows s' child ccol ks)
               (delete_rows s tname col vs) (referencing tname))"

definition on_replace_cascade :: "store \<Rightarrow> string \<Rightarrow> val \<Rightarrow> store" where
  "on_replace_cascade s tname k =
     foldl (\<lambda>s' (child, ccol). delete_rows_cascade s' child ccol [k]) s (referencing tname)"

definition fk_ok :: "store \<Rightarrow> string \<Rightarrow> row \<Rightarrow> bool" where
  "fk_ok s tname r =
     list_all (\<lambda>(col, parent).
        cell r col = Null \<or>
        (case (s parent, primary_key parent) of
           (Some p, Some pk) \<Rightarrow> list_ex (\<lambda>pr. cell pr pk = cell r col) (rows p)
         | _ \<Rightarrow> False)) (foreign_keys tname)"

text \<open>
  One execution of \<open>INSERT OR REPLACE INTO tname (stmt_cols) VALUES (vals)\<close>. The new
  row takes the stored columns from the values (every such statement of the source lists
  all columns of an ordinary table; a column left out is NULL here; the index stores no
  column, so its new entry has no cell). A row with the same
  primary key is deleted first, which fires the cascade. A NULL in a \<open>NOT NULL\<close> column
  or a dangling foreign key raises \<open>IntegrityError\<close> and changes nothing.
\<close>

definition insert_or_replace_row :: "store \<Rightarrow> string \<Rightarrow> string list \<Rightarrow> val list \<Rightarrow> error + store" where
  "insert_or_replace_row s tname stmt_cols vals =
     (case s tname of
        None \<Rightarrow> Inl (OperationalError NoSuchTable)
      | Some t \<Rightarrow>
          let r = map (\<lambda>c. (c, case map_of (zip stmt_cols vals) c of
                                  Some v \<Rightarrow> v | None \<Rightarrow> Null)) (cols t)
          in if list_ex (\<lambda>c. cell r c = Null) (not_null_cols tname) then Inl IntegrityError
             else
               let s1 = (case primary_key tname of
                           None \<Rightarrow> s(tname \<mapsto> t\<lparr>rows := rows t @ [r]\<rparr>)
                         | Some pk \<Rightarrow>
                             if list_ex (\<lambda>old. cell old pk = cell r pk) (rows t)
                             then on_replace_cascade
                                    (s(tname \<mapsto> t\<lparr>rows :=
                                         filter (\<lambda>old. cell old pk \<noteq> cell r pk) (rows t) @ [r]\<rparr>))
                                    tname (cell r pk)
                             else s(tname \<mapsto> t\<lparr>rows := rows t @ [r]\<rparr>))
               in if fk_ok s1 tname r then Inr s1 else Inl IntegrityError)"

text \<open>
  \<open>cursor.executemany\<close> of such a statement. The statement is prepared once: a missing
  table, a column that the table does not declare, or a \<open>VALUES\<close> list whose length differs from the column list,
  raises \<open>OperationalError\<close> before any row is touched. Then the tuples are bound and
  executed in order; a failure keeps the rows already written in the open transaction.
\<close>

fun execute_rows :: "store \<Rightarrow> string \<Rightarrow> string list \<Rightarrow> vexpr list \<Rightarrow> val list list \<Rightarrow> (error \<times> store) + store" where
  "execute_rows s tname stmt_cols vals [] = Inr s"
| "execute_rows s tname stmt_cols vals (ps # rest) =
     (if length ps \<noteq> placeholders vals then Inl (ProgrammingError, s)
      else case insert_or_replace_row s tname stmt_cols (bind_values vals ps) of
             Inl e \<Rightarrow> Inl (e, s)
           | Inr s' \<Rightarrow> execute_rows s' tname stmt_cols vals rest)"

definition executemany_insert_or_replace :: "store \<Rightarrow> string \<Rightarrow> string list \<Rightarrow> vexpr list \<Rightarrow> val list list \<Rightarrow> (error \<times> store) + store" where
  "executemany_insert_or_replace s tname stmt_cols vals data =
     (case s tname of
        None \<Rightarrow> Inl (OperationalError NoSuchTable, s)
      | Some t \<Rightarrow>
          if \<not> set stmt_cols \<subseteq> set (declared_cols tname t)
          then Inl (OperationalError NoSuchColumn, s)
          else if length vals \<noteq> length stmt_cols then Inl (OperationalError ValueCountMismatch, s)
          else execute_rows s tname stmt_cols vals data)"

definition executemany :: "conn \<Rightarrow> string \<Rightarrow> string list \<Rightarrow> vexpr list \<Rightarrow> val list list \<Rightarrow> outcome" where
  "executemany c tname stmt_cols vals data =
     (case executemany_insert_or_replace (live c) tname stmt_cols vals data of
        Inl (e, s) \<Rightarrow> Raised e (c\<lparr>live := s\<rparr>)
      | Inr s \<Rightarrow> Done (c\<lparr>live := s\<rparr>))"

text \<open>Sequencing: an exception ends the enclosing function.\<close>

fun and_then :: "outcome \<Rightarrow> (conn \<Rightarrow> outcome) \<Rightarrow> outcome" where
  "and_then (Done c) f = f c"
| "and_then (Raised e c) f = Raised e c"

section \<open>Catalog items\<close>

text \<open>
  What the sync code reads from the objects of the catalog client. The attributes that
  are only copied into a row are cells already; \<open>extracted\<close> holds the results of the
  \<open>extract_*\<close> helpers (lines 175-256), which flatten descriptive fields into a text
  or NULL. A rating key is an integer, as the client delivers it, so
  \<open>validate_rating_key\<close> returns it unchanged. A node is an item with the children
  that \<open>fetch_with_retry\<close> yields for it (the empty list after a transient failure).
\<close>

record part =
  part_size :: "int option"
  part_container :: "string option"

record media =
  audioCodec :: "string option"
  videoCodec :: "string option"
  videoResolution :: "string option"
  media_container :: "string option"
  media_duration :: "int option"
  parts :: "part list"

record descr =
  summary :: val
  tagline :: val
  genres :: val
  studio :: val
  directors :: val
  writers :: val
  producers :: val
  actors :: val
  originallyAvailableAt :: val
  rating :: val
  audienceRating :: val

record item =
  ratingKey :: int
  title :: string
  year :: "int option"
  contentRating :: val
  duration :: "int option"
  index :: val
  seasonNumber :: val
  seasonCount :: val
  media :: "media list"
  extracted :: descr

datatype node = Node (attrs: item) (children: "node list")

text \<open>The global settings \<open>USE_PARALLEL\<close> and \<open>DOWNLOAD_IMAGES\<close>.\<close>

record config =
  USE_PARALLEL :: bool
  DOWNLOAD_IMAGES :: bool

text \<open>Python's \<open>x or 0\<close> on an optional integer, and optional values as cells.\<close>

definition or0 :: "int option \<Rightarrow> int" where
  "or0 x = (case x of None \<Rightarrow> 0 | Some n \<Rightarrow> n)"

definition opt_text :: "string option \<Rightarrow> val" where
  "opt_text x = (case x of None \<Rightarrow> Null | Some t \<Rightarrow> T t)"

definition opt_int :: "int option \<Rightarrow> val" where
  "opt_int x = (case x of None \<Rightarrow> Null | Some n \<Rightarrow> I n)"

text \<open>
  \<open>format_resolution\<close> and \<open>format_codec\<close> (lines 158-173), on ASCII letters and
  digits; bytes outside ASCII are left as they are.
\<close>

definition ascii_lower :: "char \<Rightarrow> char" where
  "ascii_lower ch =
     (let n = (of_char ch :: nat) in if 65 \<le> n \<and> n \<le> 90 then char_of (n + 32) else ch)"

definition ascii_upper :: "char \<Rightarrow> char" where
  "ascii_upper ch =
     (let n = (of_char ch :: nat) in if 97 \<le> n \<and> n \<le> 122 then char_of (n - 32) else ch)"

definition isdigit :: "string \<Rightarrow> bool" where
  "isdigit t = (t \<noteq> [] \<and> list_all (\<lambda>ch. 48 \<le> (of_char ch :: nat) \<and> (of_char ch :: nat) \<le> 57) t)"

definition format_resolution :: "string option \<Rightarrow> string option" where
  "format_resolution resolution =
     (case resolution of
        None \<Rightarrow> None
      | Some r \<Rightarrow>
          let r' = map ascii_lower r
          in if r' = ''4k'' then Some ''2160p''
             else if isdigit r' then Some (r' @ ''p'')
             else Some r')"

definition format_codec :: "string option \<Rightarrow> string option" where
  "format_codec codec = (case codec of None \<Rightarrow> None | Some cd \<Rightarrow> Some (map ascii_upper cd))"

definition calculate_media_hash ::
  "int \<Rightarrow> int \<Rightarrow> string option \<Rightarrow> string option \<Rightarrow> string option \<Rightarrow> string \<Rightarrow> int option \<Rightarrow> media_hash" where
  "calculate_media_hash size_bytes dur codec resolution container ttl yr =
     MediaHash size_bytes dur codec resolution container ttl yr"

text \<open>\<open>human_readable_duration(d) if d else None\<close>, as the rows hold it.\<close>

definition duration_human :: "int \<Rightarrow> val" where
  "duration_human d = (if d \<noteq> 0 then T (human_readable_duration d) else Null)"

text \<open>
  \<open>", ".join(sorted(set([x for x in xs if x])))\<close>: the distinct non-empty entries in
  code point order.
\<close>

fun join_comma :: "string list \<Rightarrow> string" where
  "join_comma [] = []"
| "join_comma [x] = x"
| "join_comma (x # y # ys) = x @ '', '' @ join_comma (y # ys)"

definition csv_unique :: "string option list \<Rightarrow> string" where
  "csv_unique xs = join_comma (sort (remdups (filter (\<lambda>x. x \<noteq> []) (List.map_filter id xs))))"

text \<open>\<open>format_year_range\<close> (lines 258-265); a year of 0 is dropped like a missing one.\<close>

definition format_year_range :: "int option list \<Rightarrow> val" where
  "format_year_range years =
     (let valid_years = filter (\<lambda>y. y \<noteq> 0) (List.map_filter id years)
      in if valid_years = [] then Null
         else if length (remdups valid_years) = 1 then T (str_int (hd valid_years))
         else T (str_int (Min (set valid_years)) @ ''-'' @ str_int (Max (set valid_years))))"

section \<open>The movie pass\<close>

text \<open>
  The body of the loop of \<open>process_movies\<close> (lines 1149-1238) on one movie. The
  accumulator holds the lists the loop appends to; an image task is kept as the rating
  key of its item.
\<close>

record movies_acc =
  seen_rating_keys :: "int list"
  movies_data :: "val list list"
  image_tasks :: "int list"

definition movies_step :: "config \<Rightarrow> (val \<Rightarrow> val option) \<Rightarrow> string \<Rightarrow> movies_acc \<Rightarrow> item \<Rightarrow> movies_acc" where
  "movies_step cfg existing_hashes current_time acc movie =
     (case media movie of
        [] \<Rightarrow> acc
      | m # ms \<Rightarrow>
          (case parts m of
             [] \<Rightarrow> acc
           | p # ps \<Rightarrow>
               let rating_key = ratingKey movie;
                   acc1 = acc\<lparr>seen_rating_keys := seen_rating_keys acc @ [rating_key]\<rparr>;
                   size_bytes = or0 (part_size p);
                   dur = or0 (duration movie);
                   audio_codec = format_codec (audioCodec m);
                   video_codec = format_codec (videoCodec m);
                   video_resolution = format_resolution (videoResolution m);
                   media_hash = calculate_media_hash size_bytes dur video_codec video_resolution
                                  (part_container p) (title movie) (year movie)
               in if \<not> USE_PARALLEL cfg \<and> existing_hashes (I rating_key) = Some (Hash media_hash)
                  then acc1
                  else acc1\<lparr>
                    image_tasks := (if DOWNLOAD_IMAGES cfg then image_tasks acc1 @ [rating_key]
                                    else image_tasks acc1),
                    movies_data := movies_data acc1 @
                      [[I rating_key, T (title movie), opt_int (year movie), contentRating movie,
                        I dur, duration_human dur, opt_text audio_codec,
                        opt_text (part_container p), opt_text video_codec,
                        opt_text video_resolution, I size_bytes, SizeText size_bytes,
                        Hash media_hash, summary (extracted movie), tagline (extracted movie),
                        genres (extracted movie), studio (extracted movie),
                        directors (extracted movie), writers (extracted movie),
                        producers (extracted movie), actors (extracted movie),
                        originallyAvailableAt (extracted movie), rating (extracted movie),
                        audienceRating (extracted movie), I 1, T current_time]]\<rparr>))"

definition movies_loop :: "config \<Rightarrow> (val \<Rightarrow> val option) \<Rightarrow> string \<Rightarrow> item list \<Rightarrow> movies_acc" where
  "movies_loop cfg existing_hashes current_time movies =
     foldl (movies_step cfg existing_hashes current_time)
       \<lparr>seen_rating_keys = [], movies_data = [], image_tasks = []\<rparr> movies"

text \<open>
  \<open>SELECT ratingKey, mediaHash FROM tname WHERE available = 1\<close> read into a
  dictionary, where a later row would overwrite an earlier one with the same key.
\<close>

definition select_hashes :: "store \<Rightarrow> string \<Rightarrow> error + (val \<Rightarrow> val option)" where
  "select_hashes s tname =
     (case s tname of
        None \<Rightarrow> Inl (OperationalError NoSuchTable)
      | Some t \<Rightarrow>
          if \<not> set [''ratingKey'', ''mediaHash'', ''available''] \<subseteq> set (cols t)
          then Inl (OperationalError NoSuchColumn)
          else Inr (map_of (rev (map (\<lambda>r. (cell r ''ratingKey'', cell r ''mediaHash''))
                                   (filter (\<lambda>r. cell r ''available'' = I 1) (rows t))))))"

definition prefetch_hashes :: "config \<Rightarrow> conn \<Rightarrow> string \<Rightarrow> error + (val \<Rightarrow> val option)" where
  "prefetch_hashes cfg c tname =
     (if USE_PARALLEL cfg then Inr Map.empty else select_hashes (live c) tname)"

text \<open>
  The statements of the batch upsert of \<open>process_movies\<close> (lines 1256-1278): the
  \<open>INSERT OR REPLACE INTO movies\<close> names the 26 columns of the table and has 25
  placeholders; it is followed by a commit and, inside a \<open>try\<close> that swallows
  \<open>OperationalError\<close>, by the insert into the search index, whose third parameter is
  element 14 of the movie tuple. \<open>index_movies\<close> is that commit with the index insert,
  on the connection as the movie insert leaves it.
\<close>

definition movies_insert_values :: "vexpr list" where
  "movies_insert_values = replicate 25 Param"

definition search_fts_insert_values :: "vexpr list" where
  "search_fts_insert_values = [Lit (T ''movie''), Param, Param, CoalesceParam (T []), Param, Param]"

definition index_movies :: "conn \<Rightarrow> val list list \<Rightarrow> outcome" where
  "index_movies c1 data =
     (case executemany (commit c1) ''search_fts'' search_fts_cols search_fts_insert_values
             (map (\<lambda>row. [row ! 0, row ! 1, row ! 14, row ! 2, I 1]) data) of
        Raised (OperationalError m) c2 \<Rightarrow> Done c2
      | out \<Rightarrow> out)"

definition upsert_movies :: "conn \<Rightarrow> val list list \<Rightarrow> outcome" where
  "upsert_movies c data =
     (if data = [] then Done c
      else and_then (executemany c ''movies'' movies_cols movies_insert_values data)
             (\<lambda>c1. index_movies c1 data))"

text \<open>
  \<open>process_movies\<close> (lines 1102-1284). \<open>fetched\<close> is the result of the retried
  \<open>library.all()\<close>: \<open>None\<close> when every attempt timed out, after which the function
  returns without touching the store. The image downloads between the loop and the
  upsert do not touch the store and are left out.
\<close>

definition process_movies :: "config \<Rightarrow> string \<Rightarrow> conn \<Rightarrow> node list option \<Rightarrow> outcome" where
  "process_movies cfg current_time c fetched =
     (case fetched of
        None \<Rightarrow> Done c
      | Some movies \<Rightarrow>
          if movies = [] then mark_unavailable_default c ''movies'' [] ''movie''
          else
            (case prefetch_hashes cfg c ''movies'' of
               Inl e \<Rightarrow> Raised e c
             | Inr existing_hashes \<Rightarrow>
                 let acc = movies_loop cfg existing_hashes current_time (map attrs movies)
                 in and_then (upsert_movies c (movies_data acc))
                      (\<lambda>c1. mark_unavailable_default c1 ''movies'' (seen_rating_keys acc) ''movie'')))"

section \<open>The TV pass\<close>

text \<open>
  \<open>process_episode\<close> (lines 361-447): \<open>None\<close> for an episode without media or
  without media parts, otherwise the episode tuple and the facts its season folds. The
  thumbnail download inside it does not touch the store and is left out.
\<close>

record episode_result =
  er_data :: "val list"
  er_duration :: int
  er_size_bytes :: int
  er_year :: "int option"
  er_video_resolution :: "string option"
  er_audio_codec :: "string option"
  er_video_codec :: "string option"
  er_container :: "string option"
  er_media_hash :: media_hash

definition process_episode :: "item \<Rightarrow> int \<Rightarrow> int \<Rightarrow> string \<Rightarrow> episode_result option" where
  "process_episode episode season_rating_key show_rating_key current_time =
     (let episode_rating_key = ratingKey episode;
          episode_duration = or0 (duration episode)
      in case media episode of
           [] \<Rightarrow> None
         | episode_media # ms \<Rightarrow>
             (case parts episode_media of
                [] \<Rightarrow> None
              | episode_part # ps \<Rightarrow>
                  let size_bytes = or0 (part_size episode_part);
                      audio_codec = format_codec (audioCodec episode_media);
                      video_codec = format_codec (videoCodec episode_media);
                      video_resolution = format_resolution (videoResolution episode_media);
                      media_hash = calculate_media_hash size_bytes episode_duration video_codec
                                     video_resolution (part_container episode_part)
                                     (title episode) (year episode)
                  in Some \<lparr>
                       er_data =
                         [I episode_rating_key, I season_rating_key, I show_rating_key,
                          index episode, T (title episode), opt_int (year episode),
                          I episode_duration, duration_human episode_duration,
                          opt_text audio_codec, opt_text (part_container episode_part),
                          opt_text video_codec, opt_text video_resolution, I size_bytes,
                          SizeText size_bytes, Hash media_hash, summary (extracted episode),
                          originallyAvailableAt (extracted episode),
                          directors (extracted episode), writers (extracted episode),
                          actors (extracted episode), rating (extracted episode),
                          audienceRating (extracted episode), I 1, T current_time],
                       er_duration = episode_duration,
                       er_size_bytes = size_bytes,
                       er_year = year episode,
                       er_video_resolution = video_resolution,
                       er_audio_codec = audio_codec,
                       er_video_codec = video_codec,
                       er_container = part_container episode_part,
                       er_media_hash = media_hash\<rparr>))"

text \<open>
  \<open>process_season\<close> (lines 449-552). The accumulator is the set of locals that the
  loop over the episodes updates; the season tuple is built from them after the loop.
\<close>

record season_acc =
  season_size_bytes :: int
  season_total_episodes :: int
  season_total_duration :: int
  season_years :: "int option list"
  season_video_resolutions :: "string option list"
  season_audio_codecs :: "string option list"
  season_video_codecs :: "string option list"
  season_containers :: "string option list"
  episodes_data :: "val list list"
  episode_image_tasks :: "int list"

definition season_acc0 :: season_acc where
  "season_acc0 = \<lparr>season_size_bytes = 0, season_total_episodes = 0, season_total_duration = 0,
     season_years = [], season_video_resolutions = [], season_audio_codecs = [],
     season_video_codecs = [], season_containers = [], episodes_data = [],
     episode_image_tasks = []\<rparr>"

definition season_step :: "config \<Rightarrow> int \<Rightarrow> int \<Rightarrow> string \<Rightarrow> season_acc \<Rightarrow> item \<Rightarrow> season_acc" where
  "season_step cfg season_rating_key show_rating_key current_time acc episode =
     (case process_episode episode season_rating_key show_rating_key current_time of
        None \<Rightarrow> acc
      | Some episode_result \<Rightarrow>
          acc\<lparr>episodes_data := episodes_data acc @ [er_data episode_result],
              season_total_episodes := season_total_episodes acc + 1,
              season_total_duration := season_total_duration acc + er_duration episode_result,
              season_size_bytes := season_size_bytes acc + er_size_bytes episode_result,
              season_years := season_years acc @ [er_year episode_result],
              season_video_resolutions :=
                season_video_resolutions acc @ [er_video_resolution episode_result],
              season_audio_codecs := season_audio_codecs acc @ [er_audio_codec episode_result],
              season_video_codecs := season_video_codecs acc @ [er_video_codec episode_result],
              season_containers := season_containers acc @ [er_container episode_result],
              episode_image_tasks :=
                (if USE_PARALLEL cfg \<and> DOWNLOAD_IMAGES cfg
                 then episode_image_tasks acc @ [ratingKey episode]
                 else episode_image_tasks acc)\<rparr>)"

record season_result =
  sr_season_data :: "val list"
  sr_episodes_data :: "val list list"
  sr_episode_image_tasks :: "int list"
  sr_total_episodes :: int
  sr_total_duration :: int
  sr_size_bytes :: int
  sr_years :: "int option list"
  sr_video_resolutions :: "string option list"
  sr_audio_codecs :: "string option list"
  sr_video_codecs :: "string option list"
  sr_containers :: "string option list"

definition process_season :: "config \<Rightarrow> node \<Rightarrow> int \<Rightarrow> string \<Rightarrow> season_result" where
  "process_season cfg season_node show_rating_key current_time =
     (let season = attrs season_node;
          season_rating_key = ratingKey season;
          acc = foldl (season_step cfg season_rating_key show_rating_key current_time)
                  season_acc0 (map attrs (children season_node));
          avg_season_duration =
            (if season_total_episodes acc > 0
             then season_total_duration acc div season_total_episodes acc else 0)
      in \<lparr>sr_season_data =
             [I season_rating_key, I show_rating_key, seasonNumber season,
              I (season_total_episodes acc), I avg_season_duration,
              (if avg_season_duration > 0 then T (human_readable_duration avg_season_duration)
               else Null),
              I (season_size_bytes acc), SizeText (season_size_bytes acc),
              T (csv_unique (season_video_resolutions acc)),
              T (csv_unique (season_audio_codecs acc)),
              T (csv_unique (season_video_codecs acc)),
              T (csv_unique (season_containers acc)),
              format_year_range (season_years acc), summary (extracted season),
              (if title season = [] then Null else T (title season)),
              originallyAvailableAt (extracted season), I 1, T current_time],
           sr_episodes_data = episodes_data acc,
           sr_episode_image_tasks = episode_image_tasks acc,
           sr_total_episodes = season_total_episodes acc,
           sr_total_duration = season_total_duration acc,
           sr_size_bytes = season_size_bytes acc,
           sr_years = season_years acc,
           sr_video_resolutions = season_video_resolutions acc,
           sr_audio_codecs = season_audio_codecs acc,
           sr_video_codecs = season_video_codecs acc,
           sr_containers = season_containers acc\<rparr>)"

text \<open>
  The integer held at a position of a tuple. The tuples indexed by the source are built
  by \<open>process_episode\<close> and \<open>process_album\<close>, which put integers at the positions
  read (0, 6 and 12 of an episode; 0 of a track).
\<close>

definition int_of :: "val \<Rightarrow> int" where
  "int_of v = (case v of I n \<Rightarrow> n | _ \<Rightarrow> 0)"

text \<open>
  The loop of \<open>process_tvshows\<close> that filters the episodes of one season by their
  fingerprint (lines 1381-1393): every episode is marked seen, an episode whose
  fingerprint equals the stored one is dropped from the batch in sequential mode.
\<close>

definition episode_filter_step ::
  "config \<Rightarrow> (val \<Rightarrow> val option) \<Rightarrow> int list \<times> val list list \<Rightarrow> val list \<Rightarrow> int list \<times> val list list" where
  "episode_filter_step cfg existing_episode_hashes st ep_data =
     (let ep_rating_key = ep_data ! 0;
          seen = fst st @ [int_of ep_rating_key]
      in if \<not> USE_PARALLEL cfg \<and> existing_episode_hashes ep_rating_key \<noteq> None \<and>
            14 < length ep_data \<and> Some (ep_data ! 14) = existing_episode_hashes ep_rating_key
         then (seen, snd st)
         else (seen, snd st @ [ep_data]))"

record tv_acc =
  seen_show_keys :: "int list"
  seen_season_keys :: "int list"
  seen_episode_keys :: "int list"
  tv_episodes_data :: "val list list"
  seasons_data :: "val list list"
  shows_data :: "val list list"
  show_image_tasks :: "int list"
  season_image_tasks :: "int list"
  tv_episode_image_tasks :: "int list"

record show_acc =
  show_size_bytes :: int
  show_total_episodes :: int
  show_years :: "int option list"
  show_video_resolutions :: "string option list"
  show_audio_codecs :: "string option list"
  show_video_codecs :: "string option list"
  show_containers :: "string option list"
  show_total_duration :: int

definition show_acc0 :: show_acc where
  "show_acc0 = \<lparr>show_size_bytes = 0, show_total_episodes = 0, show_years = [],
     show_video_resolutions = [], show_audio_codecs = [], show_video_codecs = [],
     show_containers = [], show_total_duration = 0\<rparr>"

text \<open>The body of the loop over the seasons of one show (lines 1369-1436).\<close>

definition tv_season_step ::
  "config \<Rightarrow> (val \<Rightarrow> val option) \<Rightarrow> int \<Rightarrow> string \<Rightarrow> tv_acc \<times> show_acc \<Rightarrow> node \<Rightarrow> tv_acc \<times> show_acc" where
  "tv_season_step cfg existing_episode_hashes show_rating_key current_time st season_node =
     (let acc = fst st; sh = snd st;
          season_rating_key = ratingKey (attrs season_node);
          season_result = process_season cfg season_node show_rating_key current_time;
          flt = foldl (episode_filter_step cfg existing_episode_hashes)
                  (seen_episode_keys acc, []) (sr_episodes_data season_result);
          filtered_episodes = snd flt;
          season_total_episodes = int (length filtered_episodes);
          season_total_duration = sum_list (map (\<lambda>ep. int_of (ep ! 6)) filtered_episodes);
          season_size_bytes = sum_list (map (\<lambda>ep. int_of (ep ! 12)) filtered_episodes);
          avg = (if season_total_episodes > 0
                 then season_total_duration div season_total_episodes else 0);
          season_row =
            (if filtered_episodes \<noteq> []
             then (sr_season_data season_result)
                    [3 := I season_total_episodes,
                     4 := I avg,
                     5 := (if avg > 0 then T (human_readable_duration avg) else Null),
                     6 := I season_size_bytes,
                     7 := SizeText season_size_bytes]
             else sr_season_data season_result)
      in (acc\<lparr>seen_season_keys := seen_season_keys acc @ [season_rating_key],
               seen_episode_keys := fst flt,
               seasons_data := seasons_data acc @ [season_row],
               tv_episodes_data := tv_episodes_data acc @ filtered_episodes,
               tv_episode_image_tasks :=
                 (if USE_PARALLEL cfg \<and> DOWNLOAD_IMAGES cfg
                  then tv_episode_image_tasks acc @ sr_episode_image_tasks season_result
                  else tv_episode_image_tasks acc),
               season_image_tasks :=
                 (if DOWNLOAD_IMAGES cfg then season_image_tasks acc @ [season_rating_key]
                  else season_image_tasks acc)\<rparr>,
          sh\<lparr>show_total_episodes := show_total_episodes sh + season_total_episodes,
              show_total_duration :=
                (if filtered_episodes \<noteq> [] then show_total_duration sh + season_total_duration
                 else show_total_duration sh),
              show_size_bytes :=
                (if filtered_episodes \<noteq> [] then show_size_bytes sh + season_size_bytes
                 else show_size_bytes sh),
              show_video_resolutions :=
                show_video_resolutions sh @ sr_video_resolutions season_result,
              show_audio_codecs := show_audio_codecs sh @ sr_audio_codecs season_result,
              show_video_codecs := show_video_codecs sh @ sr_video_codecs season_result,
              show_containers := show_containers sh @ sr_containers season_result,
              show_years := show_years sh @ sr_years season_result\<rparr>))"

text \<open>The body of the loop over the shows (lines 1345-1491).\<close>

definition tv_show_step :: "config \<Rightarrow> (val \<Rightarrow> val option) \<Rightarrow> string \<Rightarrow> tv_acc \<Rightarrow> node \<Rightarrow> tv_acc" where
  "tv_show_step cfg existing_episode_hashes current_time acc show_node =
     (let show = attrs show_node;
          show_rating_key = ratingKey show;
          st = foldl (tv_season_step cfg existing_episode_hashes show_rating_key current_time)
                 (acc\<lparr>seen_show_keys := seen_show_keys acc @ [show_rating_key]\<rparr>, show_acc0)
                 (children show_node);
          acc1 = fst st; sh = snd st;
          avg_show_duration =
            (if show_total_episodes sh > 0
             then show_total_duration sh div show_total_episodes sh
             else or0 (duration show))
      in acc1\<lparr>
           show_image_tasks :=
             (if DOWNLOAD_IMAGES cfg then show_image_tasks acc1 @ [show_rating_key]
              else show_image_tasks acc1),
           shows_data := shows_data acc1 @
             [[I show_rating_key, T (title show), contentRating show, I avg_show_duration,
               duration_human avg_show_duration, seasonCount show,
               I (show_total_episodes sh), I (show_size_bytes sh),
               SizeText (show_size_bytes sh), T (csv_unique (show_video_resolutions sh)),
               T (csv_unique (show_audio_codecs sh)), T (csv_unique (show_video_codecs sh)),
               T (csv_unique (show_containers sh)), format_year_range (show_years sh),
               summary (extracted show), genres (extracted show), studio (extracted show),
               actors (extracted show), originallyAvailableAt (extracted show),
               rating (extracted show), audienceRating (extracted show), I 1,
               T current_time]]\<rparr>)"

definition tv_acc0 :: tv_acc where
  "tv_acc0 = \<lparr>seen_show_keys = [], seen_season_keys = [], seen_episode_keys = [],
     tv_episodes_data = [], seasons_data = [], shows_data = [], show_image_tasks = [],
     season_image_tasks = [], tv_episode_image_tasks = []\<rparr>"

definition tv_loop :: "config \<Rightarrow> (val \<Rightarrow> val option) \<Rightarrow> string \<Rightarrow> node list \<Rightarrow> tv_acc" where
  "tv_loop cfg existing_episode_hashes current_time shows =
     foldl (tv_show_step cfg existing_episode_hashes current_time) tv_acc0 shows"

text \<open>
  The batch upsert of \<open>process_tvshows\<close> (lines 1536-1574): the statement for
  \<open>tv_shows\<close> names 23 columns and has 22 placeholders, the one for \<open>seasons\<close> 18 and
  18, the one for \<open>episodes\<close> 24 and 23; one commit follows the three.
\<close>

definition insert_if_any :: "string \<Rightarrow> string list \<Rightarrow> nat \<Rightarrow> val list list \<Rightarrow> conn \<Rightarrow> outcome" where
  "insert_if_any tname stmt_cols n data c =
     (if data = [] then Done c else executemany c tname stmt_cols (replicate n Param) data)"

definition upsert_tv :: "conn \<Rightarrow> tv_acc \<Rightarrow> outcome" where
  "upsert_tv c acc =
     and_then (and_then (and_then
       (insert_if_any ''tv_shows'' tv_shows_cols 22 (shows_data acc) c)
       (insert_if_any ''seasons'' seasons_cols 18 (seasons_data acc)))
       (insert_if_any ''episodes'' episodes_cols 23 (tv_episodes_data acc)))
       (\<lambda>c'. Done (commit c'))"

definition reconcile_tv :: "conn \<Rightarrow> int list \<Rightarrow> int list \<Rightarrow> int list \<Rightarrow> outcome" where
  "reconcile_tv c show_keys season_keys episode_keys =
     and_then (and_then
       (mark_unavailable_default c ''tv_shows'' show_keys ''show'')
       (\<lambda>c'. mark_unavailable_default c' ''seasons'' season_keys ''season''))
       (\<lambda>c'. mark_unavailable_default c' ''episodes'' episode_keys ''episode'')"

text \<open>\<open>process_tvshows\<close> (lines 1286-1588), image downloads left out.\<close>

definition process_tvshows :: "config \<Rightarrow> string \<Rightarrow> conn \<Rightarrow> node list option \<Rightarrow> outcome" where
  "process_tvshows cfg current_time c fetched =
     (case fetched of
        None \<Rightarrow> Done c
      | Some shows \<Rightarrow>
          if shows = [] then reconcile_tv c [] [] []
          else
            (case prefetch_hashes cfg c ''episodes'' of
               Inl e \<Rightarrow> Raised e c
             | Inr existing_episode_hashes \<Rightarrow>
                 let acc = tv_loop cfg existing_episode_hashes current_time shows
                 in and_then (upsert_tv c acc)
                      (\<lambda>c1. reconcile_tv c1 (seen_show_keys acc) (seen_season_keys acc)
                               (seen_episode_keys acc))))"

section \<open>The music pass\<close>

text \<open>
  \<open>process_album\<close> (lines 1817-1937). The locals of one track are folded over its
  media and their parts; the locals of the album over its tracks. \<open>containers\<close> is a
  Python set, kept as a list without repetitions. The list \<open>seen_track_keys\<close> is the
  caller's and is updated in place.
\<close>

record track_acc =
  track_size_bytes :: int
  track_duration :: int
  track_container :: "string option"

record album_acc =
  album_size_bytes :: int
  total_duration :: int
  containers :: "string option list"
  track_count :: int
  tracks_data :: "val list list"
  al_seen_track_keys :: "int list"

definition part_step :: "media \<Rightarrow> track_acc \<times> album_acc \<Rightarrow> part \<Rightarrow> track_acc \<times> album_acc" where
  "part_step m st p =
     (let tr = fst st; al = snd st; part_size' = or0 (part_size p)
      in (tr\<lparr>track_size_bytes := track_size_bytes tr + part_size',
              track_container :=
                (if track_container tr = None \<or> track_container tr = Some []
                 then media_container m else track_container tr)\<rparr>,
          al\<lparr>album_size_bytes := album_size_bytes al + part_size'\<rparr>))"

definition media_step :: "track_acc \<times> album_acc \<Rightarrow> media \<Rightarrow> track_acc \<times> album_acc" where
  "media_step st m =
     (let tr = fst st; al = snd st; d = or0 (media_duration m)
      in foldl (part_step m)
           (tr\<lparr>track_duration := d\<rparr>,
            al\<lparr>containers := List.insert (media_container m) (containers al),
                total_duration := total_duration al + d\<rparr>)
           (parts m))"

definition track_step :: "item \<Rightarrow> int \<Rightarrow> string \<Rightarrow> album_acc \<Rightarrow> item \<Rightarrow> album_acc" where
  "track_step album artist_rating_key current_time al track =
     (let track_rating_key = ratingKey track;
          al1 = al\<lparr>al_seen_track_keys :=
                     (if track_rating_key \<notin> set (al_seen_track_keys al)
                      then al_seen_track_keys al @ [track_rating_key]
                      else al_seen_track_keys al),
                   track_count := track_count al + 1\<rparr>;
          st = foldl media_step
                 (\<lparr>track_size_bytes = 0, track_duration = 0, track_container = None\<rparr>, al1)
                 (media track);
          tr = fst st; al2 = snd st;
          media_hash = calculate_media_hash (track_size_bytes tr) (track_duration tr) None None
                         (track_container tr) (title track) (year album)
      in al2\<lparr>tracks_data := tracks_data al2 @
           [[I track_rating_key, I (ratingKey album), I artist_rating_key, T (title track),
             index track, I (track_duration tr), duration_human (track_duration tr),
             I (track_size_bytes tr), SizeText (track_size_bytes tr),
             opt_text (track_container tr), Hash media_hash, summary (extracted track),
             originallyAvailableAt (extracted track), genres (extracted track), I 1,
             T current_time]]\<rparr>)"

record album_result =
  ar_tracks :: int
  ar_tracks_data :: "val list list"
  ar_album_data :: "val list"

text \<open>
  The result: the updated \<open>seen_track_keys\<close>, and either the exception or the triple
  the function returns. \<open>", ".join(sorted(containers))\<close> raises \<open>TypeError\<close> when a
  media has no container.
\<close>

datatype py_error = TypeError | UnboundLocalError

definition process_album ::
  "node \<Rightarrow> int \<Rightarrow> string \<Rightarrow> int list \<Rightarrow> int list \<times> (py_error + album_result \<times> int \<times> int)" where
  "process_album album_node artist_rating_key current_time seen_track_keys =
     (let album = attrs album_node;
          al = foldl (track_step album artist_rating_key current_time)
                 \<lparr>album_size_bytes = 0, total_duration = 0, containers = [], track_count = 0,
                  tracks_data = [], al_seen_track_keys = seen_track_keys\<rparr>
                 (map attrs (children album_node))
      in (al_seen_track_keys al,
          if None \<in> set (containers al) then Inl TypeError
          else Inr (\<lparr>ar_tracks = track_count al,
                     ar_tracks_data = tracks_data al,
                     ar_album_data =
                       [I (ratingKey album), I artist_rating_key, T (title album),
                        opt_int (year album), I (track_count al), I (album_size_bytes al),
                        SizeText (album_size_bytes al), I (total_duration al),
                        duration_human (total_duration al),
                        T (join_comma (sort (List.map_filter id (containers al)))),
                        summary (extracted album), genres (extracted album),
                        originallyAvailableAt (extracted album), studio (extracted album),
                        I 1, T current_time]\<rparr>,
                    album_size_bytes al, total_duration al)))"

text \<open>
  The lists \<open>process_music\<close> appends to, and those of its local variables that are
  assigned inside the loop over the albums and read after it: \<open>album\<close> (with
  \<open>album_rating_key\<close>), \<open>album_size_bytes\<close> and \<open>filtered_tracks\<close>. They are
  function-level names in Python: unbound until the first assignment, and still holding
  the values of the last album when the next artist is processed.
\<close>

record music_acc =
  seen_artist_keys :: "int list"
  seen_album_keys :: "int list"
  seen_track_keys :: "int list"
  m_tracks_data :: "val list list"
  albums_data :: "val list list"
  artists_data :: "val list list"
  artist_image_tasks :: "int list"
  album_image_tasks :: "int list"
  loc_album :: "item option"
  loc_album_size_bytes :: "int option"
  loc_filtered_tracks :: "val list list option"

definition music_acc0 :: music_acc where
  "music_acc0 = \<lparr>seen_artist_keys = [], seen_album_keys = [], seen_track_keys = [],
     m_tracks_data = [], albums_data = [], artists_data = [], artist_image_tasks = [],
     album_image_tasks = [], loc_album = None, loc_album_size_bytes = None,
     loc_filtered_tracks = None\<rparr>"

text \<open>The filter of the tracks of one album by fingerprint (lines 1687-1700).\<close>

definition track_filter_step ::
  "config \<Rightarrow> (val \<Rightarrow> val option) \<Rightarrow> int list \<times> val list list \<Rightarrow> val list \<Rightarrow> int list \<times> val list list" where
  "track_filter_step cfg existing_track_hashes st track_data =
     (let track_rating_key = track_data ! 0;
          seen = (if int_of track_rating_key \<notin> set (fst st)
                  then fst st @ [int_of track_rating_key] else fst st)
      in if \<not> USE_PARALLEL cfg \<and> existing_track_hashes track_rating_key \<noteq> None \<and>
            10 < length track_data \<and> Some (track_data ! 10) = existing_track_hashes track_rating_key
         then (seen, snd st)
         else (seen, snd st @ [track_data]))"

text \<open>
  The loop over the albums of one artist (lines 1676-1704). An exception raised by
  \<open>process_album\<close> leaves the loop with the lists as they are at that point.
\<close>

fun albums_loop ::
  "config \<Rightarrow> (val \<Rightarrow> val option) \<Rightarrow> int \<Rightarrow> string \<Rightarrow> music_acc \<Rightarrow> node list \<Rightarrow> (py_error \<times> music_acc) + music_acc" where
  "albums_loop cfg existing_track_hashes artist_rating_key current_time acc [] = Inr acc"
| "albums_loop cfg existing_track_hashes artist_rating_key current_time acc (album_node # rest) =
     (let album = attrs album_node;
          acc1 = acc\<lparr>loc_album := Some album,
                     seen_album_keys := seen_album_keys acc @ [ratingKey album]\<rparr>;
          res = process_album album_node artist_rating_key current_time (seen_track_keys acc1);
          acc2 = acc1\<lparr>seen_track_keys := fst res\<rparr>
      in case snd res of
           Inl e \<Rightarrow> Inl (e, acc2)
         | Inr (album_result, album_size_bytes', album_duration) \<Rightarrow>
             let flt = foldl (track_filter_step cfg existing_track_hashes)
                         (seen_track_keys acc2, []) (ar_tracks_data album_result);
                 filtered_tracks = snd flt
             in albums_loop cfg existing_track_hashes artist_rating_key current_time
                  (acc2\<lparr>seen_track_keys := fst flt,
                         loc_album_size_bytes := Some album_size_bytes',
                         loc_filtered_tracks := Some filtered_tracks,
                         m_tracks_data := m_tracks_data acc2 @ filtered_tracks,
                         albums_data := albums_data acc2 @ [ar_album_data album_result]\<rparr>)
                  rest)"

text \<open>
  The artist tuple (lines 1725-1737) from the totals that the block after the loop
  leaves in \<open>artist_total_albums\<close>, \<open>artist_total_tracks\<close>,
  \<open>artist_total_size_bytes\<close> and \<open>artist_years\<close>.
\<close>

definition artist_tuple :: "item \<Rightarrow> int \<Rightarrow> int \<Rightarrow> int \<Rightarrow> int option list \<Rightarrow> string \<Rightarrow> val list" where
  "artist_tuple artist artist_total_albums artist_total_tracks artist_total_size_bytes
      artist_years current_time =
     [I (ratingKey artist), T (title artist), I artist_total_albums, I artist_total_tracks,
      I artist_total_size_bytes, SizeText artist_total_size_bytes,
      format_year_range artist_years, summary (extracted artist), genres (extracted artist),
      I 1, T current_time]"

text \<open>
  The body of the loop over the artists (lines 1649-1743). The block that adds an album
  to the artist's totals (lines 1706-1714) stands after the loop over the albums, under
  \<open>if DOWNLOAD_IMAGES\<close>: it runs once per artist, on the variables of the last album
  processed so far, and raises \<open>UnboundLocalError\<close> when one of them was never
  assigned. Every exception of the body is caught and the loop goes on with the next
  artist, without the artist tuple.
\<close>

definition artist_step :: "config \<Rightarrow> (val \<Rightarrow> val option) \<Rightarrow> string \<Rightarrow> music_acc \<Rightarrow> node \<Rightarrow> music_acc" where
  "artist_step cfg existing_track_hashes current_time acc artist_node =
     (let artist = attrs artist_node;
          artist_rating_key = ratingKey artist;
          acc1 = acc\<lparr>seen_artist_keys := seen_artist_keys acc @ [artist_rating_key],
                     artist_image_tasks :=
                       (if DOWNLOAD_IMAGES cfg then artist_image_tasks acc @ [artist_rating_key]
                        else artist_image_tasks acc)\<rparr>
      in case albums_loop cfg existing_track_hashes artist_rating_key current_time acc1
                (children artist_node) of
           Inl (e, acc2) \<Rightarrow> acc2
         | Inr acc2 \<Rightarrow>
             if DOWNLOAD_IMAGES cfg then
               (case loc_album acc2 of
                  None \<Rightarrow> acc2
                | Some album \<Rightarrow>
                    let acc3 = acc2\<lparr>album_image_tasks :=
                                       album_image_tasks acc2 @ [ratingKey album]\<rparr>
                    in (case (loc_album_size_bytes acc3, loc_filtered_tracks acc3) of
                          (Some album_size_bytes', Some filtered_tracks) \<Rightarrow>
                            acc3\<lparr>artists_data := artists_data acc3 @
                              [artist_tuple artist (0 + 1) (0 + int (length filtered_tracks))
                                 (0 + album_size_bytes') ([] @ [year album]) current_time]\<rparr>
                        | _ \<Rightarrow> acc3))
             else acc2\<lparr>artists_data := artists_data acc2 @
                         [artist_tuple artist 0 0 0 [] current_time]\<rparr>)"

definition music_loop :: "config \<Rightarrow> (val \<Rightarrow> val option) \<Rightarrow> string \<Rightarrow> node list \<Rightarrow> music_acc" where
  "music_loop cfg existing_track_hashes current_time artists =
     foldl (artist_step cfg existing_track_hashes current_time) music_acc0 artists"

text \<open>
  The batch upsert (lines 1772-1805), whose three statements have as many placeholders
  as columns and are followed by one commit, and the reconciliation (lines 1807-1810).
\<close>

definition upsert_music :: "conn \<Rightarrow> music_acc \<Rightarrow> outcome" where
  "upsert_music c acc =
     and_then (and_then (and_then
       (insert_if_any ''artists'' artists_cols 11 (artists_data acc) c)
       (insert_if_any ''albums'' albums_cols 16 (albums_data acc)))
       (insert_if_any ''tracks'' tracks_cols 16 (m_tracks_data acc)))
       (\<lambda>c'. Done (commit c'))"

definition reconcile_music :: "conn \<Rightarrow> int list \<Rightarrow> int list \<Rightarrow> int list \<Rightarrow> outcome" where
  "reconcile_music c artist_keys album_keys track_keys =
     and_then (and_then
       (mark_unavailable_default c ''artists'' artist_keys ''artist'')
       (\<lambda>c'. mark_unavailable_default c' ''albums'' album_keys ''album''))
       (\<lambda>c'. mark_unavailable_default c' ''tracks'' track_keys ''track'')"

text \<open>\<open>process_music\<close> (lines 1590-1815), image downloads left out.\<close>

definition process_music :: "config \<Rightarrow> string \<Rightarrow> conn \<Rightarrow> node list option \<Rightarrow> outcome" where
  "process_music cfg current_time c fetched =
     (case fetched of
        None \<Rightarrow> Done c
      | Some artists \<Rightarrow>
          if artists = [] then reconcile_music c [] [] []
          else
            (case prefetch_hashes cfg c ''tracks'' of
               Inl e \<Rightarrow> Raised e c
             | Inr existing_track_hashes \<Rightarrow>
                 let acc = music_loop cfg existing_track_hashes current_time artists
                 in and_then (upsert_music c acc)
                      (\<lambda>c1. reconcile_music c1 (seen_artist_keys acc) (seen_album_keys acc)
                               (seen_track_keys acc))))"

section \<open>The schema migrator\<close>

text \<open>
  The schema of a database file: the columns of every table (the virtual table
  \<open>search_fts\<close> among them), the names of its indexes, the rows of \<open>schema_version\<close>
  (\<open>None\<close> while that table does not exist; \<open>applied_at\<close> is not kept), and whether
  the SQLite build has the \<open>fts5\<close> module. Row contents of the other tables are not
  part of the schema: the statements that copy rows into \<open>search_fts\<close> appear here with
  the tables and columns they need. Column names are compared as written.
\<close>

record schema_db =
  tables :: "string \<Rightarrow> string list option"
  indexes :: "string set"
  versions :: "int list option"
  fts5 :: bool

datatype mig_outcome = Migrated schema_db | Failed sql_error schema_db

fun schema_of :: "mig_outcome \<Rightarrow> schema_db" where
  "schema_of (Migrated db) = db"
| "schema_of (Failed e db) = db"

fun mig_then :: "mig_outcome \<Rightarrow> (schema_db \<Rightarrow> mig_outcome) \<Rightarrow> mig_outcome" where
  "mig_then (Migrated db) f = f db"
| "mig_then (Failed e db) f = Failed e db"

text \<open>\<open>get_schema_version\<close> and \<open>set_schema_version\<close> (lines 554-575).\<close>

definition get_schema_version :: "schema_db \<Rightarrow> int" where
  "get_schema_version db =
     (case versions db of
        None \<Rightarrow> 0
      | Some vs \<Rightarrow> if vs = [] then 0 else Max (set vs))"

definition set_schema_version :: "schema_db \<Rightarrow> int \<Rightarrow> mig_outcome" where
  "set_schema_version db version =
     (let vs = (case versions db of None \<Rightarrow> [] | Some vs' \<Rightarrow> vs')
      in Migrated (db\<lparr>versions := Some (if version \<in> set vs then vs else vs @ [version])\<rparr>))"

text \<open>The statements of the migrations.\<close>

definition alter_add_column :: "schema_db \<Rightarrow> string \<Rightarrow> string \<Rightarrow> mig_outcome" where
  "alter_add_column db tname col =
     (case tables db tname of
        None \<Rightarrow> Failed NoSuchTable db
      | Some cs \<Rightarrow>
          if col \<in> set cs then Failed DuplicateColumn db
          else Migrated (db\<lparr>tables := (tables db)(tname \<mapsto> cs @ [col])\<rparr>))"

definition create_index :: "schema_db \<Rightarrow> string \<Rightarrow> string \<Rightarrow> string \<Rightarrow> mig_outcome" where
  "create_index db idx tname col =
     (if idx \<in> indexes db then Migrated db
      else case tables db tname of
             None \<Rightarrow> Failed NoSuchTable db
           | Some cs \<Rightarrow>
               if col \<notin> set cs then Failed NoSuchColumn db
               else Migrated (db\<lparr>indexes := insert idx (indexes db)\<rparr>))"

definition create_table :: "schema_db \<Rightarrow> string \<Rightarrow> string list \<Rightarrow> schema_db" where
  "create_table db tname cs =
     (case tables db tname of
        None \<Rightarrow> db\<lparr>tables := (tables db)(tname \<mapsto> cs)\<rparr>
      | Some cs' \<Rightarrow> db)"

definition create_search_fts :: "schema_db \<Rightarrow> mig_outcome" where
  "create_search_fts db =
     (case tables db ''search_fts'' of
        Some cs \<Rightarrow> Migrated db
      | None \<Rightarrow>
          if fts5 db then Migrated (db\<lparr>tables := (tables db)(''search_fts'' \<mapsto> search_fts_cols)\<rparr>)
          else Failed NoSuchModule db)"

text \<open>
  \<open>INSERT ... INTO search_fts(...) SELECT cols FROM tname WHERE available = 1\<close>: on the
  schema, a check that the source table, its columns and the columns of the index exist.
\<close>

definition select_into_fts :: "schema_db \<Rightarrow> string \<Rightarrow> string list \<Rightarrow> mig_outcome" where
  "select_into_fts db tname cs =
     (case tables db ''search_fts'' of
        None \<Rightarrow> Failed NoSuchTable db
      | Some fcs \<Rightarrow>
          if \<not> set search_fts_cols \<subseteq> set fcs then Failed NoSuchColumn db
          else case tables db tname of
                 None \<Rightarrow> Failed NoSuchTable db
               | Some tcs \<Rightarrow> if set cs \<subseteq> set tcs then Migrated db else Failed NoSuchColumn db)"

definition populate_search_fts :: "schema_db \<Rightarrow> mig_outcome" where
  "populate_search_fts db =
     mig_then (mig_then
       (select_into_fts db ''movies'' [''ratingKey'', ''title'', ''summary'', ''year'', ''available''])
       (\<lambda>db'. select_into_fts db' ''tv_shows'' [''ratingKey'', ''title'', ''summary'', ''available'']))
       (\<lambda>db'. select_into_fts db' ''artists'' [''ratingKey'', ''artistName'', ''summary'', ''available''])"

text \<open>
  One \<open>ALTER TABLE ... ADD COLUMN\<close> inside \<open>try\<close>: a "duplicate column" error is
  swallowed, any other is raised again. In migration 1 the \<open>CREATE INDEX\<close> stands in
  the same \<open>try\<close>, after the \<open>ALTER\<close>, and is skipped when the column exists.
\<close>

definition add_column_tolerant :: "schema_db \<Rightarrow> string \<Rightarrow> string \<Rightarrow> mig_outcome" where
  "add_column_tolerant db tname col =
     (case alter_add_column db tname col of
        Failed DuplicateColumn db' \<Rightarrow> Migrated db'
      | out \<Rightarrow> out)"

fun add_columns :: "schema_db \<Rightarrow> string \<Rightarrow> string list \<Rightarrow> mig_outcome" where
  "add_columns db tname [] = Migrated db"
| "add_columns db tname (col # rest) =
     mig_then (add_column_tolerant db tname col) (\<lambda>db'. add_columns db' tname rest)"

definition add_hash_column :: "string \<Rightarrow> string \<Rightarrow> schema_db \<Rightarrow> mig_outcome" where
  "add_hash_column tname idx db =
     (case alter_add_column db tname ''mediaHash'' of
        Failed DuplicateColumn db' \<Rightarrow> Migrated db'
      | Failed e db' \<Rightarrow> Failed e db'
      | Migrated db' \<Rightarrow> create_index db' idx tname ''mediaHash'')"

definition migration_1 :: "schema_db \<Rightarrow> mig_outcome" where
  "migration_1 db =
     mig_then (mig_then (mig_then
       (add_hash_column ''movies'' ''idx_movies_hash'' db)
       (add_hash_column ''episodes'' ''idx_episodes_hash''))
       (add_hash_column ''tracks'' ''idx_tracks_hash''))
       (\<lambda>db'. set_schema_version db' 1)"

definition movie_columns :: "string list" where
  "movie_columns = [''summary'', ''tagline'', ''genres'', ''studio'', ''directors'', ''writers'',
     ''producers'', ''actors'', ''originallyAvailableAt'', ''rating'', ''audienceRating'']"

definition show_columns :: "string list" where
  "show_columns = [''summary'', ''genres'', ''studio'', ''actors'', ''originallyAvailableAt'',
     ''rating'', ''audienceRating'']"

definition season_columns :: "string list" where
  "season_columns = [''summary'', ''title'', ''originallyAvailableAt'']"

definition episode_columns :: "string list" where
  "episode_columns = [''summary'', ''originallyAvailableAt'', ''directors'', ''writers'',
     ''actors'', ''rating'', ''audienceRating'']"

definition artist_columns :: "string list" where
  "artist_columns = [''summary'', ''genres'']"

definition album_columns :: "string list" where
  "album_columns = [''summary'', ''genres'', ''originallyAvailableAt'', ''studio'']"

definition track_columns :: "string list" where
  "track_columns = [''summary'', ''originallyAvailableAt'', ''genres'']"

definition migration_2 :: "schema_db \<Rightarrow> mig_outcome" where
  "migration_2 db =
     mig_then (mig_then (mig_then (mig_then (mig_then (mig_then (mig_then
       (add_columns db ''movies'' movie_columns)
       (\<lambda>db'. add_columns db' ''tv_shows'' show_columns))
       (\<lambda>db'. add_columns db' ''seasons'' season_columns))
       (\<lambda>db'. add_columns db' ''episodes'' episode_columns))
       (\<lambda>db'. add_columns db' ''artists'' artist_columns))
       (\<lambda>db'. add_columns db' ''albums'' album_columns))
       (\<lambda>db'. add_columns db' ''tracks'' track_columns))
       (\<lambda>db'. set_schema_version db' 2)"

text \<open>
  Migration 3 (lines 740-782): an \<open>OperationalError\<close> that names the missing module
  is swallowed and the version is set all the same; any other is raised again.
\<close>

definition migration_3 :: "schema_db \<Rightarrow> mig_outcome" where
  "migration_3 db =
     (case mig_then (mig_then (create_search_fts db) populate_search_fts)
             (\<lambda>db'. set_schema_version db' 3) of
        Failed NoSuchModule db' \<Rightarrow> set_schema_version db' 3
      | out \<Rightarrow> out)"

text \<open>\<open>run_migrations\<close> (lines 577-782) and the constant \<open>SCHEMA_VERSION\<close>.\<close>

definition SCHEMA_VERSION :: int where
  "SCHEMA_VERSION = 3"

definition run_migrations :: "schema_db \<Rightarrow> int \<Rightarrow> int \<Rightarrow> mig_outcome" where
  "run_migrations db current_version target_version =
     (if current_version \<ge> target_version then Migrated db
      else mig_then (mig_then
             (if current_version < 1 then migration_1 db else Migrated db)
             (\<lambda>db'. if current_version < 2 then migration_2 db' else Migrated db'))
             (\<lambda>db'. if current_version < 3 then migration_3 db' else Migrated db'))"

text \<open>
  The schema part of \<open>init_database\<close> (lines 784-1055): the version is read first, the
  tables and indexes are created if they do not exist, the search index is created and
  filled inside a \<open>try\<close> that swallows every \<open>OperationalError\<close>, and the migrations
  run from the version read at the start.
\<close>

definition create_tables :: "schema_db \<Rightarrow> schema_db" where
  "create_tables db =
     foldl (\<lambda>db' (tname, cs). create_table db' tname cs) db
       [(''movies'', movies_cols), (''tv_shows'', tv_shows_cols), (''seasons'', seasons_cols),
        (''episodes'', episodes_cols), (''artists'', artists_cols), (''albums'', albums_cols),
        (''tracks'', tracks_cols)]"

fun create_indexes :: "schema_db \<Rightarrow> (string \<times> string \<times> string) list \<Rightarrow> mig_outcome" where
  "create_indexes db [] = Migrated db"
| "create_indexes db ((idx, tname, col) # rest) =
     mig_then (create_index db idx tname col) (\<lambda>db'. create_indexes db' rest)"

definition init_indexes :: "(string \<times> string \<times> string) list" where
  "init_indexes =
     [(''idx_seasons_show'', ''seasons'', ''showRatingKey''),
      (''idx_episodes_season'', ''episodes'', ''seasonRatingKey''),
      (''idx_episodes_show'', ''episodes'', ''showRatingKey''),
      (''idx_albums_artist'', ''albums'', ''artistRatingKey''),
      (''idx_tracks_album'', ''tracks'', ''albumRatingKey''),
      (''idx_tracks_artist'', ''tracks'', ''artistRatingKey''),
      (''idx_movies_available'', ''movies'', ''available''),
      (''idx_tv_shows_available'', ''tv_shows'', ''available''),
      (''idx_seasons_available'', ''seasons'', ''available''),
      (''idx_episodes_available'', ''episodes'', ''available''),
      (''idx_artists_available'', ''artists'', ''available''),
      (''idx_albums_available'', ''albums'', ''available''),
      (''idx_tracks_available'', ''tracks'', ''available'')]"

definition init_database :: "schema_db \<Rightarrow> mig_outcome" where
  "init_database db =
     (let current_version = get_schema_version db
      in mig_then (create_indexes (create_tables db) init_indexes)
           (\<lambda>db1. let db2 = schema_of (mig_then (create_search_fts db1) populate_search_fts)
                  in run_migrations db2 current_version SCHEMA_VERSION))"

text \<open>A database file that does not exist yet.\<close>

definition no_database :: "bool \<Rightarrow> schema_db" where
  "no_database has_fts5 =
     \<lparr>tables = (\<lambda>tname. None), indexes = {}, versions = None, fts5 = has_fts5\<rparr>"

section \<open>Relations used in the statements\<close>

text \<open>
  \<open>flipped r r'\<close>: row \<open>r'\<close> is row \<open>r\<close> with its \<open>available\<close> cell changed from
  1 to 0 and every other cell, and the order of the columns, as before.
  \<open>only_flips key_column seen t t'\<close>: table \<open>t'\<close> has the columns of \<open>t\<close> and as many
  rows, and each row is either the row of \<open>t\<close> at the same position or that row flipped,
  the latter only for a row whose key is not among \<open>seen\<close>.
\<close>

definition flipped :: "row \<Rightarrow> row \<Rightarrow> bool" where
  "flipped r r' \<longleftrightarrow>
     cell r ''available'' = I 1 \<and> cell r' ''available'' = I 0 \<and>
     map fst r' = map fst r \<and> (\<forall>c. c \<noteq> ''available'' \<longrightarrow> cell r' c = cell r c)"

definition only_flips :: "string \<Rightarrow> int list \<Rightarrow> table \<Rightarrow> table \<Rightarrow> bool" where
  "only_flips key_column seen t t' \<longleftrightarrow>
     cols t' = cols t \<and> length (rows t') = length (rows t) \<and>
     (\<forall>i < length (rows t).
        rows t' ! i = rows t ! i \<or>
        (flipped (rows t ! i) (rows t' ! i) \<and> cell (rows t ! i) key_column \<notin> I ` set seen))"

definition total_removal :: "table \<Rightarrow> table \<Rightarrow> bool" where
  "total_removal t t' \<longleftrightarrow>
     cols t' = cols t \<and> length (rows t') = length (rows t) \<and>
     (\<forall>i < length (rows t).
        (cell (rows t ! i) ''available'' = I 1 \<longrightarrow> flipped (rows t ! i) (rows t' ! i)) \<and>
        (cell (rows t ! i) ''available'' \<noteq> I 1 \<longrightarrow> rows t' ! i = rows t ! i)) \<and>
     (\<forall>r \<in> set (rows t'). cell r ''available'' \<noteq> I 1)"

definition has_available :: "store \<Rightarrow> string \<Rightarrow> bool" where
  "has_available s tname = (case s tname of None \<Rightarrow> False | Some t \<Rightarrow> ''available'' \<in> set (cols t))"

definition removed_in :: "store \<Rightarrow> store \<Rightarrow> string \<Rightarrow> bool" where
  "removed_in s s' tname =
     (case (s tname, s' tname) of (Some t, Some t') \<Rightarrow> total_removal t t' | _ \<Rightarrow> False)"



definition no_hashes :: "val \<Rightarrow> val option" where
  "no_hashes = Map.empty"

text \<open>
  An item without playable media: no media, or a first media without parts. The cell of
  a stored row by position, for reading the result of a pass.
\<close>

definition no_playable_media :: "item \<Rightarrow> bool" where
  "no_playable_media it = (case media it of [] \<Rightarrow> True | m # ms \<Rightarrow> parts m = [])"

definition stored_cell :: "store \<Rightarrow> string \<Rightarrow> nat \<Rightarrow> string \<Rightarrow> val" where
  "stored_cell s tname i c =
     (case s tname of
        None \<Rightarrow> Null
      | Some t \<Rightarrow> if i < length (rows t) then cell (rows t ! i) c else Null)"

definition row_count :: "store \<Rightarrow> string \<Rightarrow> nat" where
  "row_count s tname = (case s tname of None \<Rightarrow> 0 | Some t \<Rightarrow> length (rows t))"

text \<open>Whether a call returned normally.\<close>

definition is_done :: "outcome \<Rightarrow> bool" where
  "is_done out = (case out of Done c \<Rightarrow> True | Raised e c \<Rightarrow> False)"

text \<open>
  \<open>schema_extends a b\<close>: every table of \<open>a\<close> is a table of \<open>b\<close> with at least the
  same columns, and every row of \<open>schema_version\<close> in \<open>a\<close> is in \<open>b\<close>.
\<close>

definition schema_extends :: "schema_db \<Rightarrow> schema_db \<Rightarrow> bool" where
  "schema_extends a b \<longleftrightarrow>
     (\<forall>t cs. tables a t = Some cs \<longrightarrow> (\<exists>cs'. tables b t = Some cs' \<and> set cs \<subseteq> set cs')) \<and>
     (\<forall>vs. versions a = Some vs \<longrightarrow> (\<exists>vs'. versions b = Some vs' \<and> set vs \<subseteq> set vs'))"

definition is_migrated :: "mig_outcome \<Rightarrow> bool" where
  "is_migrated out = (case out of Migrated db \<Rightarrow> True | Failed e db \<Rightarrow> False)"

text \<open>
  \<open>settles f\<close>: a step that succeeds extends the schema, and once it has succeeded it
  succeeds without any effect on every schema that extends its result.
\<close>

definition settles :: "(schema_db \<Rightarrow> mig_outcome) \<Rightarrow> bool" where
  "settles f \<longleftrightarrow>
     (\<forall>db d. f db = Migrated d \<longrightarrow> schema_extends db d) \<and>
     (\<forall>db d1 d2. f db = Migrated d1 \<and> schema_extends d1 d2 \<longrightarrow> f d2 = Migrated d2)"

section \<open>Concrete inputs\<close>

text \<open>
  A movie with one media and one part, the row that a sync writes for it, and a store
  that holds the movies 1, 2 and 3 as available, with their three entries in the search
  index (an entry of the contentless index has no cell).
\<close>

definition plain_descr :: descr where
  "plain_descr = \<lparr>summary = Null, tagline = Null, genres = Null, studio = Null,
     directors = Null, writers = Null, producers = Null, actors = Null,
     originallyAvailableAt = Null, rating = Null, audienceRating = Null\<rparr>"

definition one_media :: media where
  "one_media = \<lparr>audioCodec = Some ''aac'', videoCodec = Some ''h264'',
     videoResolution = Some ''1080'', media_container = Some ''mkv'',
     media_duration = Some 6000000,
     parts = [\<lparr>part_size = Some 1000, part_container = Some ''mkv''\<rparr>]\<rparr>"

definition plain_item :: "int \<Rightarrow> string \<Rightarrow> media list \<Rightarrow> item" where
  "plain_item k name ms = \<lparr>ratingKey = k, title = name, year = Some 2020, contentRating = Null,
     duration = Some 6000000, index = Null, seasonNumber = Null, seasonCount = Null,
     media = ms, extracted = plain_descr\<rparr>"

definition movie_item :: "int \<Rightarrow> node" where
  "movie_item k = Node (plain_item k ''Film'' [one_media]) []"

definition stored_movie :: "int \<Rightarrow> row" where
  "stored_movie k = zip movies_cols
     [I k, T ''Film'', I 2020, Null, I 6000000, T ''100 mins'', T ''AAC'', T ''mkv'',
      T ''H264'', T ''1080p'', I 1000, SizeText 1000,
      Hash (MediaHash 1000 6000000 (Some ''H264'') (Some ''1080p'') (Some ''mkv'') ''Film'' (Some 2020)),
      Null, Null, Null, Null, Null, Null, Null, Null, Null, Null, Null, I 1, T ''2024-01-01'']"

definition index_entry :: row where
  "index_entry = []"

definition store_123 :: store where
  "store_123 =
     (init_store True)
       (''movies'' \<mapsto> \<lparr>cols = movies_cols,
                        rows = [stored_movie 1, stored_movie 2, stored_movie 3]\<rparr>,
        ''search_fts'' \<mapsto> \<lparr>cols = [], rows = [index_entry, index_entry, index_entry]\<rparr>)"

definition stored_123 :: conn where
  "stored_123 = \<lparr>live = store_123, durable = store_123\<rparr>"

text \<open>
  A store that also holds one show with a season and an episode, and one artist with an
  album and a track, all available.
\<close>

definition stored_show :: row where
  "stored_show = zip tv_shows_cols
     [I 10, T ''Show'', Null, I 1800000, T ''30 mins'', I 1, I 1, I 500, SizeText 500,
       T ''1080p'', T ''AAC'', T ''H264'', T ''mkv'', T ''2020'',
      Null, Null, Null, Null, Null, Null, Null, I 1, T ''2024-01-01'']"

definition stored_season :: row where
  "stored_season = zip seasons_cols
     [I 11, I 10, I 1, I 1, I 1800000, T ''30 mins'', I 500, SizeText 500, T ''1080p'',
      T ''AAC'', T ''H264'', T ''mkv'', T ''2020'', Null, T ''Season 1'', Null, I 1,
      T ''2024-01-01'']"

definition stored_episode :: row where
  "stored_episode = zip episodes_cols
     [I 12, I 11, I 10, I 1, T ''Pilot'', I 2020, I 1800000, T ''30 mins'', T ''AAC'',
       T ''mkv'', T ''H264'', T ''1080p'', I 500, SizeText 500,
       Hash (MediaHash 500 1800000 (Some ''H264'') (Some ''1080p'') (Some ''mkv'') ''Pilot'' (Some 2020)),
      Null, Null, Null, Null, Null, Null, Null, I 1, T ''2024-01-01'']"

definition stored_artist :: row where
  "stored_artist = zip artists_cols
     [I 20, T ''Band'', I 1, I 1, I 300, SizeText 300, T ''2020'', Null, Null, I 1,
      T ''2024-01-01'']"

definition stored_album :: row where
  "stored_album = zip albums_cols
     [I 21, I 20, T ''Album'', I 2020, I 1, I 300, SizeText 300, I 200000, T ''3 mins'',
      T ''flac'', Null, Null, Null, Null, I 1, T ''2024-01-01'']"

definition stored_track :: row where
  "stored_track = zip tracks_cols
     [I 22, I 21, I 20, T ''Song'', I 1, I 200000, T ''3 mins'', I 300, SizeText 300,
      T ''flac'', Hash (MediaHash 300 200000 None None (Some ''flac'') ''Song'' (Some 2020)),
      Null, Null, Null, I 1, T ''2024-01-01'']"

definition store_all :: store where
  "store_all =
     store_123
       (''tv_shows'' \<mapsto> \<lparr>cols = tv_shows_cols, rows = [stored_show]\<rparr>,
        ''seasons'' \<mapsto> \<lparr>cols = seasons_cols, rows = [stored_season]\<rparr>,
        ''episodes'' \<mapsto> \<lparr>cols = episodes_cols, rows = [stored_episode]\<rparr>,
        ''artists'' \<mapsto> \<lparr>cols = artists_cols, rows = [stored_artist]\<rparr>,
        ''albums'' \<mapsto> \<lparr>cols = albums_cols, rows = [stored_album]\<rparr>,
        ''tracks'' \<mapsto> \<lparr>cols = tracks_cols, rows = [stored_track]\<rparr>)"

definition stored_all :: conn where
  "stored_all = \<lparr>live = store_all, durable = store_all\<rparr>"

text \<open>
  A season with three episodes of durations 30, 45 and 60 and sizes 100, 200 and 300,
  and a show without seasons whose own duration is 6000000.
\<close>

definition episode_item :: "int \<Rightarrow> int \<Rightarrow> int \<Rightarrow> node" where
  "episode_item k d sz =
     Node ((plain_item k ''Episode''
              [\<lparr>audioCodec = Some ''aac'', videoCodec = Some ''h264'',
                videoResolution = Some ''1080'', media_container = Some ''mkv'',
                media_duration = Some d,
                parts = [\<lparr>part_size = Some sz, part_container = Some ''mkv''\<rparr>]\<rparr>])
           \<lparr>duration := Some d\<rparr>) []"

definition season_30_45_60 :: node where
  "season_30_45_60 =
     Node (plain_item 11 ''Season 1'' [])
       [episode_item 12 30 100, episode_item 13 45 200, episode_item 14 60 300]"


text \<open>
  A show whose only season is the one above, and a store in which episode 12 of that
  season is held as available with the fingerprint that the catalog item still has.
  \<open>stored_hashes\<close> is the dictionary that a sequential run reads from a table.
\<close>

definition show_one_season :: node where
  "show_one_season = Node (plain_item 10 ''Show'' []) [season_30_45_60]"

definition stored_episode_12 :: row where
  "stored_episode_12 = zip episodes_cols
     [I 12, I 11, I 10, Null, T ''Episode'', I 2020, I 30, T ''0 mins'', T ''AAC'',
       T ''mkv'', T ''H264'', T ''1080p'', I 100, SizeText 100,
       Hash (MediaHash 100 30 (Some ''H264'') (Some ''1080p'') (Some ''mkv'') ''Episode'' (Some 2020)),
      Null, Null, Null, Null, Null, Null, Null, I 1, T ''2024-01-01'']"

definition store_episode_12 :: store where
  "store_episode_12 =
     store_all(''episodes'' \<mapsto> \<lparr>cols = episodes_cols, rows = [stored_episode_12]\<rparr>)"

definition stored_hashes :: "store \<Rightarrow> string \<Rightarrow> val \<Rightarrow> val option" where
  "stored_hashes s tname = (case select_hashes s tname of Inr h \<Rightarrow> h | Inl e \<Rightarrow> no_hashes)"

text \<open>
  An artist with two albums: one of 2019 with two tracks of sizes 100 and 200, one of
  2021 with one track of size 300. An artist without albums. A track without media.
\<close>

definition track_item :: "int \<Rightarrow> int \<Rightarrow> node" where
  "track_item k sz =
     Node (plain_item k ''Song''
             [\<lparr>audioCodec = Some ''flac'', videoCodec = None, videoResolution = None,
               media_container = Some ''flac'', media_duration = Some 200000,
               parts = [\<lparr>part_size = Some sz, part_container = Some ''flac''\<rparr>]\<rparr>]) []"

definition album_2019 :: node where
  "album_2019 =
     Node ((plain_item 21 ''First'' [])\<lparr>year := Some 2019\<rparr>) [track_item 23 100, track_item 24 200]"

definition album_2021 :: node where
  "album_2021 = Node ((plain_item 22 ''Second'' [])\<lparr>year := Some 2021\<rparr>) [track_item 25 300]"

definition artist_two_albums :: node where
  "artist_two_albums = Node (plain_item 20 ''Band'' []) [album_2019, album_2021]"

definition artist_without_albums :: node where
  "artist_without_albums = Node (plain_item 30 ''Solo'' []) []"

definition track_without_media :: node where
  "track_without_media = Node (plain_item 26 ''Silent'' []) []"

definition artist_silent_track :: node where
  "artist_silent_track =
     Node (plain_item 20 ''Band'' [])
       [Node ((plain_item 21 ''First'' [])\<lparr>year := Some 2019\<rparr>) [track_without_media]]"

definition no_images_mode :: config where
  "no_images_mode = \<lparr>USE_PARALLEL = True, DOWNLOAD_IMAGES = False\<rparr>"

text \<open>A connection to a database that \<open>init_database\<close> has just created.\<close>

definition fresh_conn :: conn where
  "fresh_conn = \<lparr>live = init_store True, durable = init_store True\<rparr>"

definition movie_without_media :: node where
  "movie_without_media = Node (plain_item 5 ''Lost'' []) []"


text \<open>
  A database written before the migrations existed: the seven tables without the
  columns that the migrations 1 and 2 add, no index, no \<open>schema_version\<close> table.
\<close>

definition legacy_cols :: "string list \<Rightarrow> string list \<Rightarrow> string list" where
  "legacy_cols cs added = filter (\<lambda>c. c \<notin> set (''mediaHash'' # added)) cs"

definition legacy_database :: "bool \<Rightarrow> schema_db" where
  "legacy_database has_fts5 =
     \<lparr>tables = map_of
        [(''movies'', legacy_cols movies_cols movie_columns),
         (''tv_shows'', legacy_cols tv_shows_cols show_columns),
         (''seasons'', legacy_cols seasons_cols season_columns),
         (''episodes'', legacy_cols episodes_cols episode_columns),
         (''artists'', legacy_cols artists_cols artist_columns),
         (''albums'', legacy_cols albums_cols album_columns),
         (''tracks'', legacy_cols tracks_cols track_columns)],
      indexes = {}, versions = None, fts5 = has_fts5\<rparr>"

definition parallel_mode :: config where
  "parallel_mode = \<lparr>USE_PARALLEL = True, DOWNLOAD_IMAGES = True\<rparr>"

definition sequential_mode :: config where
  "sequential_mode = \<lparr>USE_PARALLEL = False, DOWNLOAD_IMAGES = True\<rparr>"



section \<open>Duration rendering\<close>

lemma duration_minutes_of_whole_seconds:
  "1000 \<le> d \<Longrightarrow> 1 \<le> duration_minutes d"
proof -
  assume d: "1000 \<le> d"
  then have s: "0 < d div 1000" by (simp add: pos_imp_zdiv_pos_iff)
  have "0 \<le> py_round_div (d div 1000) 60"
    using s by (auto simp: py_round_div_def Let_def pos_imp_zdiv_nonneg_iff)
  then show ?thesis
    using s by (auto simp: duration_minutes_def Let_def)
qed

text \<open>
  Claim C10. The rendered minute count is meant to be at least 1 for every positive
  duration (the source comments the guard with "Ensure at least 1 minute if there's any
  duration"). The guard tests the truncated second count, so a duration below one second
  is rendered as zero minutes: for 500 ms the function returns the text "0 mins".
\<close>

theorem human_readable_duration_subsecond:
  "duration_minutes 500 = 0 \<and> human_readable_duration 500 = ''0 mins''"
  by (simp add: human_readable_duration_def duration_minutes_def py_round_div_def
      str_int_def digits_of.simps digit_char_def)

section \<open>Reconciliation changes availability only\<close>

lemma map_of_set_cell_same:
  "map_of (set_cell r c v) c = map_option (\<lambda>_. v) (map_of r c)"
  unfolding set_cell_def by (induction r) auto

lemma map_of_set_cell_other:
  "c' \<noteq> c \<Longrightarrow> map_of (set_cell r c v) c' = map_of r c'"
  unfolding set_cell_def by (induction r) auto

lemma map_of_set_cell:
  "map_of (set_cell r c v) c' = (if c' = c then map_option (\<lambda>_. v) (map_of r c) else map_of r c')"
  by (simp add: map_of_set_cell_same map_of_set_cell_other)

lemma cell_set_cell:
  "cell (set_cell r c v) c' = (if c' = c \<and> c \<in> fst ` set r then v else cell r c')"
proof (cases "map_of r c")
  case None
  then have "c \<notin> fst ` set r" by (simp add: map_of_eq_None_iff)
  with None show ?thesis by (simp add: cell_def map_of_set_cell)
next
  case (Some x)
  then have "c \<in> fst ` set r" by (metis map_of_eq_None_iff option.distinct(1))
  with Some show ?thesis by (simp add: cell_def map_of_set_cell)
qed

lemma map_fst_set_cell: "map fst (set_cell r c v) = map fst r"
  unfolding set_cell_def by (induction r) (simp_all split: prod.splits)

lemma cell_in_keys: "cell r c \<noteq> Null \<Longrightarrow> c \<in> fst ` set r"
  by (cases "map_of r c") (auto simp: cell_def dest: map_of_SomeD intro: rev_image_eqI)

lemma flipped_set_cell:
  "cell r ''available'' = I 1 \<Longrightarrow> flipped r (set_cell r ''available'' (I 0))"
  using cell_in_keys[of r "''available''"]
  by (simp add: flipped_def cell_set_cell map_fst_set_cell)

lemma unseen_conds_holds:
  "list_all (cond_holds r) (unseen_conds kc seen) \<Longrightarrow>
     cell r ''available'' = I 1 \<and> cell r kc \<notin> I ` set seen"
  by (auto simp: unseen_conds_def split: if_splits)

lemma only_flips_refl: "only_flips kc seen t t"
  by (simp add: only_flips_def)

lemma sql_update_other:
  "sql_update s tn sc v conds = Inr s' \<Longrightarrow> n \<noteq> tn \<Longrightarrow> s' n = s n"
  by (auto simp: sql_update_def split: option.splits if_splits)

lemma sql_update_Inl: "sql_update s tn sc v conds = Inr s' \<Longrightarrow> s tn \<noteq> None"
  by (auto simp: sql_update_def split: option.splits if_splits)

lemma sql_update_unseen:
  assumes "sql_update s tn ''available'' (I 0) (extra @ unseen_conds kc seen) = Inr s'"
  shows "\<exists>t t'. s tn = Some t \<and> s' tn = Some t' \<and> only_flips kc seen t t'"
proof -
  from assms obtain t where t: "s tn = Some t"
    and s': "s' = s(tn \<mapsto> t\<lparr>rows := map (\<lambda>r. if list_all (cond_holds r) (extra @ unseen_conds kc seen)
                                    then set_cell r ''available'' (I 0) else r) (rows t)\<rparr>)"
    by (auto simp: sql_update_def split: option.splits if_splits)
  have "only_flips kc seen t (t\<lparr>rows := map (\<lambda>r. if list_all (cond_holds r) (extra @ unseen_conds kc seen)
                                    then set_cell r ''available'' (I 0) else r) (rows t)\<rparr>)"
    unfolding only_flips_def
    using unseen_conds_holds flipped_set_cell by auto
  with t s' show ?thesis by simp
qed

text \<open>
  Claim C9. Reconciliation never deletes and touches only availability. For every
  table name, seen list and key column, after \<open>mark_unavailable\<close> (whether it
  returns or raises): every table other than the named one and the search index is as
  before; the named table has the same columns and the same number of rows, and each row
  is either unchanged or has only its \<open>available\<close> cell changed from 1 to 0, which
  happens only to a row whose key is not in the seen list; the same holds for the rows
  of \<open>search_fts\<close>, keyed by \<open>ratingKey\<close>.
\<close>

theorem mark_unavailable_frame:
  "(\<forall>n. n \<noteq> tn \<and> n \<noteq> ''search_fts'' \<longrightarrow>
        live (conn_of (mark_unavailable c tn seen lt kc)) n = live c n) \<and>
   (live c tn = None \<longrightarrow> live (conn_of (mark_unavailable c tn seen lt kc)) tn = None) \<and>
   (\<forall>t. live c tn = Some t \<longrightarrow>
        (\<exists>t'. live (conn_of (mark_unavailable c tn seen lt kc)) tn = Some t' \<and>
              only_flips kc seen t t')) \<and>
   (tn \<noteq> ''search_fts'' \<longrightarrow> live c ''search_fts'' = None \<longrightarrow>
        live (conn_of (mark_unavailable c tn seen lt kc)) ''search_fts'' = None) \<and>
   (\<forall>f. tn \<noteq> ''search_fts'' \<longrightarrow> live c ''search_fts'' = Some f \<longrightarrow>
        (\<exists>f'. live (conn_of (mark_unavailable c tn seen lt kc)) ''search_fts'' = Some f' \<and>
              only_flips ''ratingKey'' seen f f'))"
proof (cases "sql_update (live c) tn ''available'' (I 0) (unseen_conds kc seen)")
  case (Inl e)
  then show ?thesis by (auto simp: mark_unavailable_def only_flips_refl)
next
  case (Inr s1)
  have o1: "\<And>n. n \<noteq> tn \<Longrightarrow> s1 n = live c n"
    using sql_update_other[OF Inr] by simp
  from sql_update_unseen[of "live c" tn "[]" kc seen s1] Inr
  obtain t t' where t: "live c tn = Some t" "s1 tn = Some t'" "only_flips kc seen t t'"
    by auto
  show ?thesis
  proof (cases "tn \<in> set searchable_tables")
    case False
    then show ?thesis using Inr o1 t
      by (auto simp: mark_unavailable_def Let_def commit_def only_flips_refl)
  next
    case True
    then obtain ft where ft: "type_map tn = Some ft" and ne: "tn \<noteq> ''search_fts''"
      by (auto simp: searchable_tables_def type_map_def)
    have res: "live (conn_of (mark_unavailable c tn seen lt kc)) = s1"
      using Inr True ft
      by (simp add: mark_unavailable_def update_search_fts_def Let_def commit_def
          split: option.splits)
    show ?thesis unfolding res using o1 t ne by (auto simp: only_flips_refl)
  qed
qed

theorem mark_unavailable_frame_witness:
  "''tracks'' \<noteq> ''movies'' \<and> ''tracks'' \<noteq> ''search_fts'' \<and>
   live (conn_of (mark_unavailable stored_123 ''movies'' [2, 3, 4] ''movie'' ''ratingKey'')) ''tracks''
     = live stored_123 ''tracks'' \<and>
   (\<exists>t t'. live stored_123 ''movies'' = Some t \<and> length (rows t) = 3 \<and>
      live (conn_of (mark_unavailable stored_123 ''movies'' [2, 3, 4] ''movie'' ''ratingKey'')) ''movies''
        = Some t' \<and> only_flips ''ratingKey'' [2, 3, 4] t t') \<and>
   (\<exists>f f'. live stored_123 ''search_fts'' = Some f \<and> length (rows f) = 3 \<and>
      live (conn_of (mark_unavailable stored_123 ''movies'' [2, 3, 4] ''movie'' ''ratingKey'')) ''search_fts''
        = Some f' \<and> only_flips ''ratingKey'' [2, 3, 4] f f')"
proof -
  note fr = mark_unavailable_frame[of "''movies''" stored_123 "[2, 3, 4]" "''movie''" "''ratingKey''"]
  have m: "live stored_123 ''movies'' =
      Some \<lparr>cols = movies_cols, rows = [stored_movie 1, stored_movie 2, stored_movie 3]\<rparr>"
    by (simp add: stored_123_def store_123_def)
  have f: "live stored_123 ''search_fts'' =
      Some \<lparr>cols = [], rows = [index_entry, index_entry, index_entry]\<rparr>"
    by (simp add: stored_123_def store_123_def)
  have ne: "''tracks'' \<noteq> ''movies'' \<and> ''tracks'' \<noteq> ''search_fts'' \<and> ''movies'' \<noteq> ''search_fts''"
    by simp
  have ne1: "''tracks'' \<noteq> ''movies'' \<and> ''tracks'' \<noteq> ''search_fts''" by simp
  have ne2: "''movies'' \<noteq> ''search_fts''" by simp
  note 1 = fr[THEN conjunct1, rule_format, OF ne1]
  note 2 = fr[THEN conjunct2, THEN conjunct2, THEN conjunct1, rule_format, OF m]
  note 3 = fr[THEN conjunct2, THEN conjunct2, THEN conjunct2, THEN conjunct2, rule_format, OF ne2 f]
  from 1 2 3 show ?thesis by (simp add: m f)
qed

section \<open>The empty-result policy\<close>

lemma total_removal_update:
  "total_removal t (t\<lparr>rows := map (\<lambda>r. if list_all (cond_holds r) [Eq ''available'' (I 1)]
                                    then set_cell r ''available'' (I 0) else r) (rows t)\<rparr>)"
  unfolding total_removal_def
  using flipped_set_cell by (auto simp: flipped_def)

lemma mark_unavailable_empty:
  assumes t: "live c tn = Some t" and a: "''available'' \<in> set (cols t)"
  shows "\<exists>c' t'. mark_unavailable c tn [] lt kc = Done c' \<and> live c' tn = Some t' \<and>
           total_removal t t' \<and> durable c' = live c' \<and>
           (\<forall>n. n \<noteq> tn \<and> n \<noteq> ''search_fts'' \<longrightarrow> live c' n = live c n)"
proof -
  let ?t' = "t\<lparr>rows := map (\<lambda>r. if list_all (cond_holds r) [Eq ''available'' (I 1)]
                                    then set_cell r ''available'' (I 0) else r) (rows t)\<rparr>"
  let ?s1 = "(live c)(tn \<mapsto> ?t')"
  have u: "sql_update (live c) tn ''available'' (I 0) (unseen_conds kc []) = Inr ?s1"
    using t a by (simp add: sql_update_def unseen_conds_def)
  have tr: "total_removal t ?t'" by (rule total_removal_update)
  show ?thesis
  proof (cases "tn \<in> set searchable_tables")
    case False
    then show ?thesis using u tr
      by (simp add: mark_unavailable_def Let_def commit_def)
  next
    case True
    then obtain ft where ft: "type_map tn = Some ft" and ne: "tn \<noteq> ''search_fts''"
      by (auto simp: searchable_tables_def type_map_def)
    show ?thesis using u tr True ft
      by (simp add: mark_unavailable_def update_search_fts_def Let_def commit_def
          split: option.splits)
  qed
qed

lemma mark_unavailable_empty_rel:
  assumes "has_available (live c) tn"
  shows "\<exists>c'. mark_unavailable c tn [] lt kc = Done c' \<and> removed_in (live c) (live c') tn \<and>
           durable c' = live c' \<and>
           (\<forall>n. n \<noteq> tn \<and> n \<noteq> ''search_fts'' \<longrightarrow> live c' n = live c n)"
proof -
  from assms obtain t where t: "live c tn = Some t" "''available'' \<in> set (cols t)"
    by (auto simp: has_available_def split: option.splits)
  from mark_unavailable_empty[OF t, of lt kc] t(1) show ?thesis
    by (auto simp: removed_in_def)
qed

lemma reconcile3_empty:
  assumes a: "has_available (live c) ta" and b: "has_available (live c) tb"
    and d: "has_available (live c) td"
    and ne: "ta \<noteq> tb" "ta \<noteq> td" "tb \<noteq> td"
      "ta \<noteq> ''search_fts''" "tb \<noteq> ''search_fts''" "td \<noteq> ''search_fts''"
  shows "\<exists>c'. and_then (and_then (mark_unavailable c ta [] la ka)
                    (\<lambda>c1. mark_unavailable c1 tb [] lb kb))
                    (\<lambda>c2. mark_unavailable c2 td [] ld kd) = Done c' \<and>
           removed_in (live c) (live c') ta \<and> removed_in (live c) (live c') tb \<and>
           removed_in (live c) (live c') td \<and> durable c' = live c'"
proof -
  from mark_unavailable_empty_rel[OF a, of la ka] obtain c1 where
    1: "mark_unavailable c ta [] la ka = Done c1" "removed_in (live c) (live c1) ta"
       "\<And>n. n \<noteq> ta \<Longrightarrow> n \<noteq> ''search_fts'' \<Longrightarrow> live c1 n = live c n"
    by blast
  have b1: "has_available (live c1) tb" using b 1(3)[of tb] ne by (simp add: has_available_def)
  from mark_unavailable_empty_rel[OF b1, of lb kb] obtain c2 where
    2: "mark_unavailable c1 tb [] lb kb = Done c2" "removed_in (live c1) (live c2) tb"
       "\<And>n. n \<noteq> tb \<Longrightarrow> n \<noteq> ''search_fts'' \<Longrightarrow> live c2 n = live c1 n"
    by blast
  have d2: "has_available (live c2) td"
    using d 1(3)[of td] 2(3)[of td] ne by (simp add: has_available_def)
  from mark_unavailable_empty_rel[OF d2, of ld kd] obtain c3 where
    3: "mark_unavailable c2 td [] ld kd = Done c3" "removed_in (live c2) (live c3) td"
       "durable c3 = live c3"
       "\<And>n. n \<noteq> td \<Longrightarrow> n \<noteq> ''search_fts'' \<Longrightarrow> live c3 n = live c2 n"
    by blast
  have ra: "removed_in (live c) (live c3) ta"
    using 1(2) 2(3)[of ta] 3(4)[of ta] ne by (simp add: removed_in_def)
  have rb: "removed_in (live c) (live c3) tb"
    using 2(2) 1(3)[of tb] 3(4)[of tb] ne by (simp add: removed_in_def)
  have rd: "removed_in (live c) (live c3) td"
    using 3(2) 1(3)[of td] 2(3)[of td] ne by (simp add: removed_in_def)
  show ?thesis using 1(1) 2(1) 3(1) 3(3) ra rb rd by simp
qed

text \<open>
  Claim C2. Reconciliation with an empty seen list is a total removal: on a table that
  has an \<open>available\<close> column, \<open>mark_unavailable\<close> with no seen key returns
  normally, flips every row that was available and leaves no available row, and the
  result is committed. In particular a pass whose catalog listing is empty does this for
  every table of its library: \<open>movies\<close>; \<open>tv_shows\<close>, \<open>seasons\<close> and
  \<open>episodes\<close>; \<open>artists\<close>, \<open>albums\<close> and \<open>tracks\<close>.
\<close>

theorem empty_seen_total_removal:
  "(has_available (live c) tn \<longrightarrow>
      (\<exists>c'. mark_unavailable c tn [] lt kc = Done c' \<and>
            removed_in (live c) (live c') tn \<and> durable c' = live c')) \<and>
   (has_available (live c) ''movies'' \<longrightarrow>
      (\<exists>c'. process_movies cfg now c (Some []) = Done c' \<and>
            removed_in (live c) (live c') ''movies'' \<and> durable c' = live c')) \<and>
   (has_available (live c) ''tv_shows'' \<and> has_available (live c) ''seasons'' \<and>
    has_available (live c) ''episodes'' \<longrightarrow>
      (\<exists>c'. process_tvshows cfg now c (Some []) = Done c' \<and>
            removed_in (live c) (live c') ''tv_shows'' \<and>
            removed_in (live c) (live c') ''seasons'' \<and>
            removed_in (live c) (live c') ''episodes'' \<and> durable c' = live c')) \<and>
   (has_available (live c) ''artists'' \<and> has_available (live c) ''albums'' \<and>
    has_available (live c) ''tracks'' \<longrightarrow>
      (\<exists>c'. process_music cfg now c (Some []) = Done c' \<and>
            removed_in (live c) (live c') ''artists'' \<and>
            removed_in (live c) (live c') ''albums'' \<and>
            removed_in (live c) (live c') ''tracks'' \<and> durable c' = live c'))"
proof (intro conjI impI)
  assume "has_available (live c) tn"
  from mark_unavailable_empty_rel[OF this, of lt kc]
  show "\<exists>c'. mark_unavailable c tn [] lt kc = Done c' \<and>
            removed_in (live c) (live c') tn \<and> durable c' = live c'" by blast
next
  assume "has_available (live c) ''movies''"
  from mark_unavailable_empty_rel[OF this, of "''movie''" "''ratingKey''"]
  show "\<exists>c'. process_movies cfg now c (Some []) = Done c' \<and>
            removed_in (live c) (live c') ''movies'' \<and> durable c' = live c'"
    by (auto simp: process_movies_def mark_unavailable_default_def)
next
  assume h: "has_available (live c) ''tv_shows'' \<and> has_available (live c) ''seasons'' \<and>
    has_available (live c) ''episodes''"
  from reconcile3_empty[of c "''tv_shows''" "''seasons''" "''episodes''"
      "''show''" "''ratingKey''" "''season''" "''ratingKey''" "''episode''" "''ratingKey''"] h
  show "\<exists>c'. process_tvshows cfg now c (Some []) = Done c' \<and>
            removed_in (live c) (live c') ''tv_shows'' \<and>
            removed_in (live c) (live c') ''seasons'' \<and>
            removed_in (live c) (live c') ''episodes'' \<and> durable c' = live c'"
    by (simp add: process_tvshows_def reconcile_tv_def mark_unavailable_default_def)
next
  assume h: "has_available (live c) ''artists'' \<and> has_available (live c) ''albums'' \<and>
    has_available (live c) ''tracks''"
  from reconcile3_empty[of c "''artists''" "''albums''" "''tracks''"
      "''artist''" "''ratingKey''" "''album''" "''ratingKey''" "''track''" "''ratingKey''"] h
  show "\<exists>c'. process_music cfg now c (Some []) = Done c' \<and>
            removed_in (live c) (live c') ''artists'' \<and>
            removed_in (live c) (live c') ''albums'' \<and>
            removed_in (live c) (live c') ''tracks'' \<and> durable c' = live c'"
    by (simp add: process_music_def reconcile_music_def mark_unavailable_default_def)
qed

lemma has_available_stored_all:
  "has_available (live stored_all) ''movies''" "has_available (live stored_all) ''tv_shows''"
  "has_available (live stored_all) ''seasons''" "has_available (live stored_all) ''episodes''"
  "has_available (live stored_all) ''artists''" "has_available (live stored_all) ''albums''"
  "has_available (live stored_all) ''tracks''"
  by (simp_all add: has_available_def stored_all_def store_all_def store_123_def
      movies_cols_def tv_shows_cols_def seasons_cols_def episodes_cols_def artists_cols_def
      albums_cols_def tracks_cols_def)

theorem empty_seen_total_removal_witness:
  "has_available (live stored_all) ''movies'' \<and>
   has_available (live stored_all) ''tv_shows'' \<and> has_available (live stored_all) ''seasons'' \<and>
   has_available (live stored_all) ''episodes'' \<and>
   has_available (live stored_all) ''artists'' \<and> has_available (live stored_all) ''albums'' \<and>
   has_available (live stored_all) ''tracks'' \<and>
   (\<exists>c'. mark_unavailable stored_all ''movies'' [] ''movie'' ''ratingKey'' = Done c' \<and>
         removed_in (live stored_all) (live c') ''movies'') \<and>
   (\<exists>c'. process_movies parallel_mode ''2024-02-02'' stored_all (Some []) = Done c' \<and>
         removed_in (live stored_all) (live c') ''movies'') \<and>
   (\<exists>c'. process_tvshows parallel_mode ''2024-02-02'' stored_all (Some []) = Done c' \<and>
         removed_in (live stored_all) (live c') ''episodes'') \<and>
   (\<exists>c'. process_music parallel_mode ''2024-02-02'' stored_all (Some []) = Done c' \<and>
         removed_in (live stored_all) (live c') ''tracks'')"
proof -
  note th = empty_seen_total_removal[of stored_all "''movies''" "''movie''" "''ratingKey''"
      parallel_mode "''2024-02-02''"]
  note h = has_available_stored_all
  from th[THEN conjunct1, rule_format, OF h(1)]
    th[THEN conjunct2, THEN conjunct1, rule_format, OF h(1)]
    th[THEN conjunct2, THEN conjunct2, THEN conjunct1, rule_format, OF conjI[OF h(2) conjI[OF h(3) h(4)]]]
    th[THEN conjunct2, THEN conjunct2, THEN conjunct2, rule_format, OF conjI[OF h(5) conjI[OF h(6) h(7)]]]
  show ?thesis using h by blast
qed

section \<open>The reconciliation scenario on the movie pass\<close>

lemma format_codec_h264: "format_codec (Some ''h264'') = Some ''H264''"
  by code_simp

lemma format_resolution_1080: "format_resolution (Some ''1080'') = Some ''1080p''"
  by code_simp

lemma upsert_movies_raises:
  assumes "data \<noteq> []" and "live c ''movies'' = Some t" and "cols t = movies_cols"
  shows "upsert_movies c data = Raised (OperationalError ValueCountMismatch) c"
  using assms
  by (simp add: upsert_movies_def executemany_def executemany_insert_or_replace_def
      declared_cols_def movies_insert_values_def movies_cols_def)

lemma movies_123: "live stored_123 ''movies'' =
    Some \<lparr>cols = movies_cols, rows = [stored_movie 1, stored_movie 2, stored_movie 3]\<rparr>"
  by (simp add: stored_123_def store_123_def)

lemma movies_loop_234_parallel:
  "movies_data (movies_loop parallel_mode Map.empty now (map attrs [movie_item 2, movie_item 3, movie_item 4])) \<noteq> []"
  by (simp add: movies_loop_def movies_step_def movie_item_def plain_item_def one_media_def
      parallel_mode_def Let_def)

lemma existing_123:
  "select_hashes (live stored_123) ''movies'' = Inr h \<Longrightarrow>
     h (I 2) = Some (Hash (MediaHash 1000 6000000 (Some ''H264'') (Some ''1080p'') (Some ''mkv'') ''Film'' (Some 2020))) \<and>
     h (I 3) = Some (Hash (MediaHash 1000 6000000 (Some ''H264'') (Some ''1080p'') (Some ''mkv'') ''Film'' (Some 2020))) \<and>
     h (I 4) = None"
  by (auto simp: select_hashes_def movies_123 movies_cols_def stored_movie_def cell_def)

lemma movies_loop_234_sequential:
  assumes "select_hashes (live stored_123) ''movies'' = Inr h"
  shows "seen_rating_keys (movies_loop sequential_mode h now (map attrs [movie_item 2, movie_item 3, movie_item 4])) = [2, 3, 4] \<and>
     map (\<lambda>r. r ! 0) (movies_data (movies_loop sequential_mode h now (map attrs [movie_item 2, movie_item 3, movie_item 4]))) = [I 4]"
  using existing_123[OF assms]
  by (simp add: movies_loop_def movies_step_def movie_item_def plain_item_def one_media_def
      sequential_mode_def Let_def format_codec_h264 format_resolution_1080 or0_def
      calculate_media_hash_def)

text \<open>
  Claim C1. After a completed pass the available rows should be exactly the rows seen:
  with the movies 1, 2 and 3 stored as available and a catalog that lists the movies 2,
  3 and 4, row 1 should become unavailable and row 4 should be inserted. The pass does
  not get that far. Its \<open>INSERT OR REPLACE INTO movies\<close> names 26 columns and has 25
  placeholders, so the statement is refused when it is prepared, \<open>process_movies\<close>
  ends with that exception before \<open>mark_unavailable\<close> is called, and the store is
  as it was: row 1 is still available and there is no row 4. This happens in both
  execution modes (in sequential mode the batch holds movie 4 only).
\<close>

theorem reconciliation_scenario_raises:
  "process_movies parallel_mode ''2024-02-02'' stored_123
       (Some [movie_item 2, movie_item 3, movie_item 4])
     = Raised (OperationalError ValueCountMismatch) stored_123 \<and>
   process_movies sequential_mode ''2024-02-02'' stored_123
       (Some [movie_item 2, movie_item 3, movie_item 4])
     = Raised (OperationalError ValueCountMismatch) stored_123 \<and>
   map (\<lambda>r. (cell r ''ratingKey'', cell r ''available''))
       (rows (the (live stored_123 ''movies'')))
     = [(I 1, I 1), (I 2, I 1), (I 3, I 1)]"
proof (intro conjI)
  show "process_movies parallel_mode ''2024-02-02'' stored_123
       (Some [movie_item 2, movie_item 3, movie_item 4])
     = Raised (OperationalError ValueCountMismatch) stored_123"
    using movies_loop_234_parallel[of "''2024-02-02''"]
    by (simp add: process_movies_def prefetch_hashes_def parallel_mode_def Let_def
        upsert_movies_raises[OF _ movies_123])
next
  obtain h where h: "select_hashes (live stored_123) ''movies'' = Inr h"
    by (simp add: select_hashes_def movies_123 movies_cols_def)
  from movies_loop_234_sequential[OF h, of "''2024-02-02''"]
  have "movies_data (movies_loop sequential_mode h ''2024-02-02''
          (map attrs [movie_item 2, movie_item 3, movie_item 4])) \<noteq> []"
    by auto
  then show "process_movies sequential_mode ''2024-02-02'' stored_123
       (Some [movie_item 2, movie_item 3, movie_item 4])
     = Raised (OperationalError ValueCountMismatch) stored_123"
    using h
    by (simp add: process_movies_def prefetch_hashes_def sequential_mode_def Let_def
        upsert_movies_raises[OF _ movies_123])
next
  show "map (\<lambda>r. (cell r ''ratingKey'', cell r ''available''))
       (rows (the (live stored_123 ''movies'')))
     = [(I 1, I 1), (I 2, I 1), (I 3, I 1)]"
    by (simp add: movies_123 stored_movie_def movies_cols_def cell_def)
qed

section \<open>Averages and totals of the aggregates\<close>


















section \<open>Unchanged episodes in sequential mode\<close>

text \<open>
  Claim C3. In sequential mode an episode whose fingerprint is unchanged should still
  count in its season's episode count, total size and average duration, and be in the
  seen list. It is in the seen list, but not in the aggregates: when at least one episode
  of the season goes into the batch, \<open>process_tvshows\<close> recomputes the season tuple
  from the episodes in the batch only. With episode 12 stored unchanged and the episodes
  13 and 14 new, the season tuple holds 2 episodes, average 52 and size 500; the same
  catalog in parallel mode (and the tuple \<open>process_season\<close> had computed) gives 3
  episodes, average 45 and size 600.
\<close>

theorem unchanged_episode_left_out_of_season:
  "seen_episode_keys (tv_loop sequential_mode (stored_hashes store_episode_12 ''episodes'')
      ''2024-02-02'' [show_one_season]) = [12, 13, 14] \<and>
   map (\<lambda>ep. ep ! 0) (tv_episodes_data (tv_loop sequential_mode
      (stored_hashes store_episode_12 ''episodes'') ''2024-02-02'' [show_one_season])) = [I 13, I 14] \<and>
   seasons_data (tv_loop sequential_mode (stored_hashes store_episode_12 ''episodes'')
      ''2024-02-02'' [show_one_season]) ! 0 ! 3 = I 2 \<and>
   seasons_data (tv_loop sequential_mode (stored_hashes store_episode_12 ''episodes'')
      ''2024-02-02'' [show_one_season]) ! 0 ! 4 = I 52 \<and>
   seasons_data (tv_loop sequential_mode (stored_hashes store_episode_12 ''episodes'')
      ''2024-02-02'' [show_one_season]) ! 0 ! 6 = I 500 \<and>
   seasons_data (tv_loop parallel_mode no_hashes ''2024-02-02'' [show_one_season]) ! 0 ! 3 = I 3 \<and>
   seasons_data (tv_loop parallel_mode no_hashes ''2024-02-02'' [show_one_season]) ! 0 ! 4 = I 45 \<and>
   seasons_data (tv_loop parallel_mode no_hashes ''2024-02-02'' [show_one_season]) ! 0 ! 6 = I 600"
  by code_simp

section \<open>Artist totals\<close>

text \<open>
  Claim C4. The artist tuple should hold the number of the artist's albums, the number
  of their retained tracks, the sum of their sizes and the range of their years, whether
  or not images are downloaded. The block that adds an album to these totals stands
  after the loop over the albums and under \<open>if DOWNLOAD_IMAGES\<close>. For an artist with
  an album of 2019 (two tracks, sizes 100 and 200) and an album of 2021 (one track, size
  300), two album tuples and three track tuples go into the batch, but the artist tuple
  holds 1 album, 1 track, size 300 and the year 2021 when images are downloaded, and 0
  albums, 0 tracks, size 0 and no year when they are not. An artist without albums that
  comes first is seen, but the block raises on the unassigned \<open>album_rating_key\<close>
  and no artist tuple is built.
\<close>

theorem artist_totals_of_last_album_only:
  "length (albums_data (music_loop parallel_mode no_hashes ''2024-02-02'' [artist_two_albums])) = 2 \<and>
   length (m_tracks_data (music_loop parallel_mode no_hashes ''2024-02-02'' [artist_two_albums])) = 3 \<and>
   artists_data (music_loop parallel_mode no_hashes ''2024-02-02'' [artist_two_albums]) ! 0 ! 2 = I 1 \<and>
   artists_data (music_loop parallel_mode no_hashes ''2024-02-02'' [artist_two_albums]) ! 0 ! 3 = I 1 \<and>
   artists_data (music_loop parallel_mode no_hashes ''2024-02-02'' [artist_two_albums]) ! 0 ! 4 = I 300 \<and>
   artists_data (music_loop parallel_mode no_hashes ''2024-02-02'' [artist_two_albums]) ! 0 ! 6 = T ''2021'' \<and>
   artists_data (music_loop no_images_mode no_hashes ''2024-02-02'' [artist_two_albums]) ! 0 ! 2 = I 0 \<and>
   artists_data (music_loop no_images_mode no_hashes ''2024-02-02'' [artist_two_albums]) ! 0 ! 3 = I 0 \<and>
   artists_data (music_loop no_images_mode no_hashes ''2024-02-02'' [artist_two_albums]) ! 0 ! 4 = I 0 \<and>
   artists_data (music_loop no_images_mode no_hashes ''2024-02-02'' [artist_two_albums]) ! 0 ! 6 = Null \<and>
   seen_artist_keys (music_loop parallel_mode no_hashes ''2024-02-02'' [artist_without_albums]) = [30] \<and>
   artists_data (music_loop parallel_mode no_hashes ''2024-02-02'' [artist_without_albums]) = []"
  by code_simp

section \<open>Items without media\<close>

lemma placeholders_replicate: "placeholders (replicate n Param) = n"
  by (induction n) simp_all

lemma bind_values_replicate:
  "length ps = n \<Longrightarrow> bind_values (replicate n Param) ps = ps"
  by (induction n arbitrary: ps) (auto simp: length_Suc_conv)

lemma movies_step_skip:
  "no_playable_media movie \<Longrightarrow> movies_step cfg h now acc movie = acc"
  by (auto simp: no_playable_media_def movies_step_def split: list.splits)

lemma process_episode_skip:
  "no_playable_media episode \<Longrightarrow> process_episode episode sk k now = None"
  by (auto simp: no_playable_media_def process_episode_def Let_def split: list.splits)

lemma season_step_skip:
  "no_playable_media episode \<Longrightarrow> season_step cfg sk k now acc episode = acc"
  by (simp add: season_step_def process_episode_skip)

text \<open>
  A movie or an episode without playable media is skipped entirely: the movie loop and
  \<open>process_season\<close> give the same seen list, the same batch, the same aggregates and
  the same image tasks as for the catalog without that item, whatever stands before and
  after it. The loop over the tracks of an album has no such test: a track without media
  is marked seen, counted, and put into the batch with duration 0 and size 0.
\<close>

theorem missing_media_skipped:
  "(no_playable_media (attrs n) \<longrightarrow>
      movies_loop cfg h now (map attrs (xs @ [n] @ ys)) = movies_loop cfg h now (map attrs (xs @ ys)) \<and>
      process_episode (attrs n) sk k now = None \<and>
      process_season cfg (Node s (xs @ [n] @ ys)) k now = process_season cfg (Node s (xs @ ys)) k now) \<and>
   (media t = [] \<longrightarrow>
      ratingKey t \<in> set (al_seen_track_keys (track_step album ak now al t)) \<and>
      track_count (track_step album ak now al t) = track_count al + 1 \<and>
      album_size_bytes (track_step album ak now al t) = album_size_bytes al \<and>
      (\<exists>row. tracks_data (track_step album ak now al t) = tracks_data al @ [row] \<and>
             row ! 0 = I (ratingKey t) \<and> row ! 5 = I 0 \<and> row ! 7 = I 0 \<and> row ! 14 = I 1))"
proof (intro conjI impI)
  assume m: "no_playable_media (attrs n)"
  show "movies_loop cfg h now (map attrs (xs @ [n] @ ys)) = movies_loop cfg h now (map attrs (xs @ ys))"
    by (simp add: movies_loop_def movies_step_skip[OF m])
  show "process_episode (attrs n) sk k now = None" by (rule process_episode_skip[OF m])
  show "process_season cfg (Node s (xs @ [n] @ ys)) k now = process_season cfg (Node s (xs @ ys)) k now"
    by (simp add: process_season_def season_step_skip[OF m])
next
  assume t: "media t = []"
  show "ratingKey t \<in> set (al_seen_track_keys (track_step album ak now al t))"
    using t by (simp add: track_step_def Let_def)
  show "track_count (track_step album ak now al t) = track_count al + 1"
    using t by (simp add: track_step_def Let_def)
  show "album_size_bytes (track_step album ak now al t) = album_size_bytes al"
    using t by (simp add: track_step_def Let_def)
  show "\<exists>row. tracks_data (track_step album ak now al t) = tracks_data al @ [row] \<and>
             row ! 0 = I (ratingKey t) \<and> row ! 5 = I 0 \<and> row ! 7 = I 0 \<and> row ! 14 = I 1"
    using t by (simp add: track_step_def Let_def)
qed

theorem missing_media_skipped_witness:
  "no_playable_media (attrs movie_without_media) \<and>
   media (attrs track_without_media) = [] \<and>
   movies_loop parallel_mode no_hashes ''2024-02-02''
       (map attrs ([movie_item 2] @ [movie_without_media] @ [movie_item 3]))
     = movies_loop parallel_mode no_hashes ''2024-02-02'' (map attrs ([movie_item 2] @ [movie_item 3])) \<and>
   seen_rating_keys (movies_loop parallel_mode no_hashes ''2024-02-02''
       (map attrs ([movie_item 2] @ [movie_without_media] @ [movie_item 3]))) = [2, 3] \<and>
   process_episode (attrs movie_without_media) 11 10 ''2024-02-02'' = None \<and>
   ratingKey (attrs track_without_media) \<in> set (al_seen_track_keys
       (track_step (attrs album_2019) 20 ''2024-02-02''
          \<lparr>album_size_bytes = 0, total_duration = 0, containers = [], track_count = 0,
           tracks_data = [], al_seen_track_keys = []\<rparr> (attrs track_without_media)))"
proof -
  have m: "no_playable_media (attrs movie_without_media)"
    by (simp add: no_playable_media_def movie_without_media_def plain_item_def)
  have t: "media (attrs track_without_media) = []"
    by (simp add: track_without_media_def plain_item_def)
  note th = missing_media_skipped[of movie_without_media parallel_mode no_hashes "''2024-02-02''"
      "[movie_item 2]" "[movie_item 3]" 11 10 "attrs movie_without_media"
      "attrs track_without_media" "attrs album_2019" 20
      "\<lparr>album_size_bytes = 0, total_duration = 0, containers = [], track_count = 0,
           tracks_data = [], al_seen_track_keys = []\<rparr>"]
  note a = th[THEN conjunct1, rule_format, OF m]
  note b = th[THEN conjunct2, rule_format, OF t]
  have s: "seen_rating_keys (movies_loop parallel_mode no_hashes ''2024-02-02''
       (map attrs ([movie_item 2] @ [movie_item 3]))) = [2, 3]"
    by (simp add: movies_loop_def movies_step_def movie_item_def plain_item_def one_media_def
        parallel_mode_def Let_def)
  from a b m t s show ?thesis by simp
qed

text \<open>
  Claim C6. An item without playable media should never be inserted, never count in an
  aggregate and never be marked seen. This holds for movies and episodes (above), not
  for tracks: on a newly created database, a music pass over an artist whose album has
  one track without media returns normally, has the track's key 26 in its seen list, and
  leaves the track stored as available with size 0, counted in its album's \<open>tracks\<close>.
\<close>

theorem track_without_media_is_persisted:
  "no_playable_media (attrs track_without_media) \<and>
   seen_track_keys (music_loop parallel_mode no_hashes ''2024-02-02'' [artist_silent_track]) = [26] \<and>
   row_count (live (conn_of (process_music parallel_mode ''2024-02-02'' fresh_conn
      (Some [artist_silent_track])))) ''tracks'' = 1 \<and>
   stored_cell (live (conn_of (process_music parallel_mode ''2024-02-02'' fresh_conn
      (Some [artist_silent_track])))) ''tracks'' 0 ''ratingKey'' = I 26 \<and>
   stored_cell (live (conn_of (process_music parallel_mode ''2024-02-02'' fresh_conn
      (Some [artist_silent_track])))) ''tracks'' 0 ''sizeBytes'' = I 0 \<and>
   stored_cell (live (conn_of (process_music parallel_mode ''2024-02-02'' fresh_conn
      (Some [artist_silent_track])))) ''tracks'' 0 ''available'' = I 1 \<and>
   stored_cell (live (conn_of (process_music parallel_mode ''2024-02-02'' fresh_conn
      (Some [artist_silent_track])))) ''albums'' 0 ''tracks'' = I 1"
  by code_simp

section \<open>Transactions of upsert and reconciliation\<close>











text \<open>
  The availability flip does not reach the search index. The index is a contentless
  table, on which the \<open>UPDATE\<close> of \<open>mark_unavailable\<close> is refused; the exception is
  swallowed, so the function returns as if the index had been updated, and the index is
  as it was before the call.
\<close>

lemma index_update_swallowed:
  assumes "tn \<noteq> ''search_fts''"
  shows "live (conn_of (mark_unavailable c tn seen lt kc)) ''search_fts'' = live c ''search_fts''"
proof (cases "sql_update (live c) tn ''available'' (I 0) (unseen_conds kc seen)")
  case (Inl e)
  then show ?thesis by (simp add: mark_unavailable_def)
next
  case (Inr s1)
  have "s1 ''search_fts'' = live c ''search_fts''"
    using sql_update_other[OF Inr, of "''search_fts''"] assms by simp
  then show ?thesis using Inr
    by (simp add: mark_unavailable_def update_search_fts_def Let_def commit_def
        split: option.splits)
qed

text \<open>
  The reconciliation of \<open>seasons\<close> is called with the default key column
  \<open>ratingKey\<close>, which that table does not have (its key is \<open>seasonRatingKey\<close>):
  with a non-empty seen list the statement is refused, so a TV pass that got this far
  would end after the reconciliation of \<open>tv_shows\<close>, before that of \<open>episodes\<close>.
\<close>

lemma seasons_reconciliation_raises:
  "\<not> is_done (mark_unavailable_default stored_all ''seasons'' [11] ''season'') \<and>
   is_done (mark_unavailable stored_all ''seasons'' [11] ''season'' ''seasonRatingKey'') \<and>
   is_done (mark_unavailable_default stored_all ''seasons'' [] ''season'') \<and>
   \<not> is_done (reconcile_tv stored_all [10] [11] [12])"
  by code_simp

section \<open>Migrations are idempotent\<close>

lemma schema_extends_refl: "schema_extends a a"
  by (auto simp: schema_extends_def)

lemma schema_extends_trans: "schema_extends a b \<Longrightarrow> schema_extends b c \<Longrightarrow> schema_extends a c"
  unfolding schema_extends_def by (meson subset_trans)

lemma mig_then_Migrated:
  "mig_then out f = Migrated d \<Longrightarrow> \<exists>d1. out = Migrated d1 \<and> f d1 = Migrated d"
  by (cases out) simp_all

subsection \<open>Every statement extends the schema\<close>

lemma alter_extends: "alter_add_column db t c = Migrated d \<Longrightarrow> schema_extends db d"
  by (auto simp: alter_add_column_def schema_extends_def split: option.splits if_splits)

lemma create_index_extends: "create_index db i t c = Migrated d \<Longrightarrow> schema_extends db d"
  by (auto simp: create_index_def schema_extends_def split: option.splits if_splits)

lemma set_version_extends: "set_schema_version db v = Migrated d \<Longrightarrow> schema_extends db d"
  by (auto simp: set_schema_version_def schema_extends_def Let_def split: option.splits if_splits)

lemma add_column_tolerant_extends:
  "add_column_tolerant db t c = Migrated d \<Longrightarrow> schema_extends db d"
  by (auto simp: add_column_tolerant_def alter_add_column_def schema_extends_def
      split: option.splits if_splits mig_outcome.splits sql_error.splits)

lemma add_columns_extends: "add_columns db t cs = Migrated d \<Longrightarrow> schema_extends db d"
proof (induction cs arbitrary: db)
  case Nil
  then show ?case by (simp add: schema_extends_refl)
next
  case (Cons c cs)
  from Cons.prems obtain d1 where 1: "add_column_tolerant db t c = Migrated d1"
    and 2: "add_columns d1 t cs = Migrated d"
    by (auto dest: mig_then_Migrated)
  show ?case
    using add_column_tolerant_extends[OF 1] Cons.IH[OF 2] by (rule schema_extends_trans)
qed

lemma add_hash_column_extends: "add_hash_column t i db = Migrated d \<Longrightarrow> schema_extends db d"
proof -
  assume a: "add_hash_column t i db = Migrated d"
  show ?thesis
  proof (cases "alter_add_column db t ''mediaHash''")
    case (Migrated d1)
    with a have "create_index d1 i t ''mediaHash'' = Migrated d" by (simp add: add_hash_column_def)
    from schema_extends_trans[OF alter_extends[OF Migrated] create_index_extends[OF this]]
    show ?thesis .
  next
    case (Failed e d1)
    with a have "d = db"
      by (auto simp: add_hash_column_def alter_add_column_def split: sql_error.splits option.splits if_splits)
    then show ?thesis by (simp add: schema_extends_refl)
  qed
qed

subsection \<open>A statement that has succeeded is a no-op on every extension\<close>

lemma column_kept:
  "tables d1 t = Some cs \<Longrightarrow> c \<in> set cs \<Longrightarrow> schema_extends d1 d2 \<Longrightarrow>
     \<exists>cs'. tables d2 t = Some cs' \<and> c \<in> set cs'"
  unfolding schema_extends_def by blast

lemma alter_duplicate:
  "tables d t = Some cs \<Longrightarrow> c \<in> set cs \<Longrightarrow> alter_add_column d t c = Failed DuplicateColumn d"
  by (simp add: alter_add_column_def)

lemma add_column_tolerant_has:
  "add_column_tolerant db t c = Migrated d1 \<Longrightarrow> \<exists>cs. tables d1 t = Some cs \<and> c \<in> set cs"
  by (auto simp: add_column_tolerant_def alter_add_column_def
      split: option.splits if_splits mig_outcome.splits sql_error.splits)

lemma add_column_tolerant_stable:
  assumes "add_column_tolerant db t c = Migrated d1" and "schema_extends d1 d2"
  shows "add_column_tolerant d2 t c = Migrated d2"
proof -
  from add_column_tolerant_has[OF assms(1)] obtain cs where "tables d1 t = Some cs" "c \<in> set cs"
    by blast
  from column_kept[OF this assms(2)] obtain cs' where "tables d2 t = Some cs'" "c \<in> set cs'"
    by blast
  from alter_duplicate[OF this] show ?thesis by (simp add: add_column_tolerant_def)
qed

lemma add_columns_stable:
  "add_columns db t cs = Migrated d1 \<Longrightarrow> schema_extends d1 d2 \<Longrightarrow> add_columns d2 t cs = Migrated d2"
proof (induction cs arbitrary: db)
  case Nil
  then show ?case by simp
next
  case (Cons c cs)
  from Cons.prems(1) obtain e1 where 1: "add_column_tolerant db t c = Migrated e1"
    and 2: "add_columns e1 t cs = Migrated d1"
    by (auto dest: mig_then_Migrated)
  have "schema_extends e1 d2"
    using add_columns_extends[OF 2] Cons.prems(2) by (rule schema_extends_trans)
  from add_column_tolerant_stable[OF 1 this] Cons.IH[OF 2 Cons.prems(2)]
  show ?case by simp
qed

lemma add_hash_column_has:
  "add_hash_column t i db = Migrated d1 \<Longrightarrow> \<exists>cs. tables d1 t = Some cs \<and> ''mediaHash'' \<in> set cs"
  by (auto simp: add_hash_column_def alter_add_column_def create_index_def
      split: option.splits if_splits mig_outcome.splits sql_error.splits)

lemma add_hash_column_stable:
  assumes "add_hash_column t i db = Migrated d1" and "schema_extends d1 d2"
  shows "add_hash_column t i d2 = Migrated d2"
proof -
  from add_hash_column_has[OF assms(1)] obtain cs where
    "tables d1 t = Some cs" "''mediaHash'' \<in> set cs" by blast
  from column_kept[OF this assms(2)] obtain cs' where
    "tables d2 t = Some cs'" "''mediaHash'' \<in> set cs'" by blast
  from alter_duplicate[OF this] show ?thesis by (simp add: add_hash_column_def)
qed

lemma set_version_has:
  "set_schema_version db v = Migrated d1 \<Longrightarrow> \<exists>vs. versions d1 = Some vs \<and> v \<in> set vs"
  by (auto simp: set_schema_version_def Let_def split: option.splits if_splits)

lemma set_version_present:
  "versions d = Some vs \<Longrightarrow> v \<in> set vs \<Longrightarrow> set_schema_version d v = Migrated d"
  by (simp add: set_schema_version_def)

lemma set_version_stable:
  assumes "set_schema_version db v = Migrated d1" and "schema_extends d1 d2"
  shows "set_schema_version d2 v = Migrated d2"
proof -
  from set_version_has[OF assms(1)] obtain vs where "versions d1 = Some vs" "v \<in> set vs" by blast
  with assms(2) obtain vs' where "versions d2 = Some vs'" "v \<in> set vs'"
    unfolding schema_extends_def by blast
  from set_version_present[OF this] show ?thesis .
qed

subsection \<open>Sequences of steps\<close>

lemma settles_seq:
  assumes f: "settles f" and g: "settles g"
  shows "settles (\<lambda>db. mig_then (f db) g)"
  unfolding settles_def
proof (intro conjI allI impI)
  fix db d
  assume "mig_then (f db) g = Migrated d"
  then obtain d1 where 1: "f db = Migrated d1" and 2: "g d1 = Migrated d"
    by (auto dest: mig_then_Migrated)
  from f 1 have "schema_extends db d1" unfolding settles_def by blast
  moreover from g 2 have "schema_extends d1 d" unfolding settles_def by blast
  ultimately show "schema_extends db d" by (rule schema_extends_trans)
next
  fix db d1 d2
  assume a: "mig_then (f db) g = Migrated d1 \<and> schema_extends d1 d2"
  then obtain e1 where 1: "f db = Migrated e1" and 2: "g e1 = Migrated d1"
    by (auto dest: mig_then_Migrated)
  from g 2 have "schema_extends e1 d1" unfolding settles_def by blast
  with a have e: "schema_extends e1 d2" by (blast intro: schema_extends_trans)
  from f 1 e have "f d2 = Migrated d2" unfolding settles_def by blast
  moreover from g 2 a have "g d2 = Migrated d2" unfolding settles_def by blast
  ultimately show "mig_then (f d2) g = Migrated d2" by simp
qed

lemma settles_add_hash_column: "settles (add_hash_column t i)"
  unfolding settles_def using add_hash_column_extends add_hash_column_stable by blast

lemma settles_add_columns: "settles (\<lambda>db. add_columns db t cs)"
  unfolding settles_def using add_columns_extends add_columns_stable by blast

lemma settles_set_version: "settles (\<lambda>db. set_schema_version db v)"
  unfolding settles_def using set_version_extends set_version_stable by blast

lemma settles_skip: "settles Migrated"
  by (simp add: settles_def schema_extends_refl)

lemma settles_migration_1: "settles migration_1"
proof -
  have eq: "migration_1 = (\<lambda>db. mig_then (mig_then (mig_then
       (add_hash_column ''movies'' ''idx_movies_hash'' db)
       (add_hash_column ''episodes'' ''idx_episodes_hash''))
       (add_hash_column ''tracks'' ''idx_tracks_hash''))
       (\<lambda>db'. set_schema_version db' 1))"
    by (rule ext) (simp add: migration_1_def)
  show ?thesis
    unfolding eq by (intro settles_seq settles_add_hash_column settles_set_version)
qed

lemma settles_migration_2: "settles migration_2"
proof -
  have eq: "migration_2 = (\<lambda>db. mig_then (mig_then (mig_then (mig_then (mig_then (mig_then (mig_then
       (add_columns db ''movies'' movie_columns)
       (\<lambda>db'. add_columns db' ''tv_shows'' show_columns))
       (\<lambda>db'. add_columns db' ''seasons'' season_columns))
       (\<lambda>db'. add_columns db' ''episodes'' episode_columns))
       (\<lambda>db'. add_columns db' ''artists'' artist_columns))
       (\<lambda>db'. add_columns db' ''albums'' album_columns))
       (\<lambda>db'. add_columns db' ''tracks'' track_columns))
       (\<lambda>db'. set_schema_version db' 2))"
    by (rule ext) (simp add: migration_2_def)
  show ?thesis
    unfolding eq by (intro settles_seq settles_add_columns settles_set_version)
qed

subsection \<open>Migration 3\<close>

lemma populate_same: "populate_search_fts db = Migrated d \<Longrightarrow> d = db"
  by (auto simp: populate_search_fts_def select_into_fts_def
      dest!: mig_then_Migrated split: option.splits if_splits)

lemma populate_tables:
  "tables d = tables db \<Longrightarrow> populate_search_fts db = Migrated db \<Longrightarrow>
     populate_search_fts d = Migrated d"
  by (auto simp: populate_search_fts_def select_into_fts_def
      dest!: mig_then_Migrated split: option.splits if_splits)

lemma create_search_fts_extends:
  "create_search_fts db = Migrated d \<Longrightarrow> schema_extends db d"
  by (auto simp: create_search_fts_def schema_extends_def split: option.splits if_splits)

lemma populate_not_module: "populate_search_fts db = Failed e d \<Longrightarrow> e \<noteq> NoSuchModule"
  by (auto simp: populate_search_fts_def select_into_fts_def
      split: option.splits if_splits mig_outcome.splits)

lemma create_search_fts_Failed:
  "create_search_fts db = Failed e d \<Longrightarrow>
     e = NoSuchModule \<and> d = db \<and> tables db ''search_fts'' = None \<and> \<not> fts5 db"
  by (auto simp: create_search_fts_def split: option.splits if_splits)

lemma create_search_fts_Migrated:
  "create_search_fts db = Migrated d \<Longrightarrow> tables d ''search_fts'' \<noteq> None"
  by (auto simp: create_search_fts_def split: option.splits if_splits)

lemma create_search_fts_present:
  "tables d ''search_fts'' \<noteq> None \<Longrightarrow> create_search_fts d = Migrated d"
  by (auto simp: create_search_fts_def split: option.splits)

lemma set_version_frame:
  "set_schema_version db v = Migrated d \<Longrightarrow>
     tables d = tables db \<and> fts5 d = fts5 db \<and> indexes d = indexes db"
  by (auto simp: set_schema_version_def Let_def)

lemma set_version_again:
  "set_schema_version db v = Migrated d \<Longrightarrow> set_schema_version d v = Migrated d"
  using set_version_has set_version_present by blast

lemma migration_3_cases:
  assumes "migration_3 db = Migrated d"
  shows "(\<exists>d1. create_search_fts db = Migrated d1 \<and> populate_search_fts d1 = Migrated d1 \<and>
                set_schema_version d1 3 = Migrated d) \<or>
         (create_search_fts db = Failed NoSuchModule db \<and> set_schema_version db 3 = Migrated d)"
proof (cases "create_search_fts db")
  case (Migrated d1)
  show ?thesis
  proof (cases "populate_search_fts d1")
    case p: (Migrated d2)
    then have "d2 = d1" by (rule populate_same)
    moreover obtain d3 where "set_schema_version d1 3 = Migrated d3"
      by (simp add: set_schema_version_def Let_def)
    ultimately show ?thesis using assms Migrated p by (simp add: migration_3_def)
  next
    case (Failed e d2)
    with populate_not_module[OF Failed] assms Migrated show ?thesis
      by (cases e) (simp_all add: migration_3_def)
  qed
next
  case (Failed e d1)
  from create_search_fts_Failed[OF Failed] have "e = NoSuchModule" "d1 = db" by simp_all
  with assms Failed show ?thesis by (simp add: migration_3_def)
qed

lemma migration_3_extends: "migration_3 db = Migrated d \<Longrightarrow> schema_extends db d"
  using migration_3_cases[of db d]
  by (auto intro: schema_extends_trans create_search_fts_extends set_version_extends)

lemma migration_3_again:
  assumes "migration_3 db = Migrated d"
  shows "migration_3 d = Migrated d"
  using migration_3_cases[OF assms]
proof (elim disjE exE conjE)
  fix d1
  assume c: "create_search_fts db = Migrated d1" and p: "populate_search_fts d1 = Migrated d1"
    and v: "set_schema_version d1 3 = Migrated d"
  from set_version_frame[OF v] have t: "tables d = tables d1" by simp
  with create_search_fts_Migrated[OF c] have "create_search_fts d = Migrated d"
    by (simp add: create_search_fts_present)
  moreover from populate_tables[OF t p] have "populate_search_fts d = Migrated d" .
  moreover from set_version_again[OF v] have "set_schema_version d 3 = Migrated d" .
  ultimately show ?thesis by (simp add: migration_3_def)
next
  assume c: "create_search_fts db = Failed NoSuchModule db"
    and v: "set_schema_version db 3 = Migrated d"
  from create_search_fts_Failed[OF c] set_version_frame[OF v]
  have "create_search_fts d = Failed NoSuchModule d"
    by (simp add: create_search_fts_def)
  with set_version_again[OF v] show ?thesis by (simp add: migration_3_def)
qed

lemma migration_3_version:
  "migration_3 db = Migrated d \<Longrightarrow> \<exists>vs. versions d = Some vs \<and> 3 \<in> set vs"
  using migration_3_cases[of db d] set_version_has by blast

subsection \<open>The stored version never decreases\<close>

lemma version_ge:
  "versions d = Some vs \<Longrightarrow> v \<in> set vs \<Longrightarrow> v \<le> get_schema_version d"
  by (auto simp: get_schema_version_def)

lemma set_version_mono:
  "0 \<le> v \<Longrightarrow> get_schema_version db \<le> get_schema_version (schema_of (set_schema_version db v))"
proof (cases "versions db")
  case None
  assume "0 \<le> v"
  with None show ?thesis by (simp add: set_schema_version_def get_schema_version_def)
next
  case (Some vs)
  assume v: "0 \<le> v"
  show ?thesis
  proof (cases "vs = []")
    case True
    with Some v show ?thesis by (simp add: set_schema_version_def get_schema_version_def)
  next
    case False
    then have "Max (set vs) \<le> Max (insert v (set vs))"
      by (intro Max_mono) auto
    with Some False show ?thesis
      by (simp add: set_schema_version_def get_schema_version_def)
  qed
qed

lemma then_mono:
  assumes "get_schema_version db \<le> get_schema_version (schema_of out)"
    and "\<And>d. get_schema_version d \<le> get_schema_version (schema_of (g d))"
  shows "get_schema_version db \<le> get_schema_version (schema_of (mig_then out g))"
  using assms by (cases out) (auto intro: order_trans)

lemma alter_versions: "versions (schema_of (alter_add_column db t c)) = versions db"
  by (simp add: alter_add_column_def split: option.splits)

lemma create_index_versions: "versions (schema_of (create_index db i t c)) = versions db"
  by (simp add: create_index_def split: option.splits)

lemma add_hash_column_mono:
  "get_schema_version db \<le> get_schema_version (schema_of (add_hash_column t i db))"
proof -
  have "versions (schema_of (add_hash_column t i db)) = versions db"
    by (auto simp: add_hash_column_def alter_add_column_def create_index_def
        split: option.splits mig_outcome.splits sql_error.splits)
  then show ?thesis by (simp add: get_schema_version_def)
qed

lemma add_columns_versions: "versions (schema_of (add_columns db t cs)) = versions db"
proof (induction cs arbitrary: db)
  case Nil
  show ?case by simp
next
  case (Cons c cs)
  show ?case
  proof (cases "add_column_tolerant db t c")
    case (Migrated d)
    then have "versions d = versions db"
      by (auto simp: add_column_tolerant_def alter_add_column_def
          split: option.splits if_splits mig_outcome.splits sql_error.splits)
    with Migrated Cons.IH[of d] show ?thesis by simp
  next
    case (Failed e d)
    then have "versions d = versions db"
      by (auto simp: add_column_tolerant_def alter_add_column_def
          split: option.splits if_splits mig_outcome.splits sql_error.splits)
    with Failed show ?thesis by simp
  qed
qed

lemma add_columns_mono:
  "get_schema_version db \<le> get_schema_version (schema_of (add_columns db t cs))"
  by (simp add: get_schema_version_def add_columns_versions)

lemma migration_1_mono:
  "get_schema_version db \<le> get_schema_version (schema_of (migration_1 db))"
  unfolding migration_1_def
  by (intro then_mono add_hash_column_mono set_version_mono) simp

lemma migration_2_mono:
  "get_schema_version db \<le> get_schema_version (schema_of (migration_2 db))"
  unfolding migration_2_def
  by (intro then_mono add_columns_mono set_version_mono) simp

lemma fts_steps_versions:
  "versions (schema_of (mig_then (create_search_fts db) populate_search_fts)) = versions db"
  by (auto simp: create_search_fts_def populate_search_fts_def select_into_fts_def
      split: option.splits)

lemma migration_3_mono:
  "get_schema_version db \<le> get_schema_version (schema_of (migration_3 db))"
proof (cases "mig_then (create_search_fts db) populate_search_fts")
  case (Migrated d)
  with fts_steps_versions[of db] have "versions d = versions db" by simp
  then have "get_schema_version db = get_schema_version d" by (simp add: get_schema_version_def)
  with Migrated set_version_mono[of 3 d] show ?thesis
    by (simp add: migration_3_def set_schema_version_def Let_def)
next
  case (Failed e d)
  with fts_steps_versions[of db] have "versions d = versions db" by simp
  then have g: "get_schema_version db = get_schema_version d" by (simp add: get_schema_version_def)
  show ?thesis
  proof (cases e)
    case NoSuchModule
    with Failed g set_version_mono[of 3 d] show ?thesis
      by (simp add: migration_3_def set_schema_version_def Let_def)
  qed (use Failed g in \<open>simp_all add: migration_3_def\<close>)
qed

lemma run_migrations_mono:
  "get_schema_version db \<le> get_schema_version (schema_of (run_migrations db cur tgt))"
proof (cases "tgt \<le> cur")
  case True
  then show ?thesis by (simp add: run_migrations_def)
next
  case False
  have 1: "get_schema_version db
      \<le> get_schema_version (schema_of (if cur < 1 then migration_1 db else Migrated db))"
    by (simp add: migration_1_mono)
  have 2: "\<And>d. get_schema_version d
      \<le> get_schema_version (schema_of (if cur < 2 then migration_2 d else Migrated d))"
    by (simp add: migration_2_mono)
  have 3: "\<And>d. get_schema_version d
      \<le> get_schema_version (schema_of (if cur < 3 then migration_3 d else Migrated d))"
    by (simp add: migration_3_mono)
  have "get_schema_version db \<le> get_schema_version (schema_of
      (mig_then (mig_then (if cur < 1 then migration_1 db else Migrated db)
                  (\<lambda>db'. if cur < 2 then migration_2 db' else Migrated db'))
         (\<lambda>db'. if cur < 3 then migration_3 db' else Migrated db')))"
    by (rule then_mono[OF then_mono[OF 1 2] 3])
  with False show ?thesis by (simp add: run_migrations_def)
qed

subsection \<open>The chain\<close>

lemma settles_skip_all: "settles (\<lambda>db. Migrated db)"
  by (simp add: settles_def schema_extends_refl)

lemma gate_settles: "settles f \<Longrightarrow> settles (\<lambda>db. if b then f db else Migrated db)"
  by (cases b) (simp_all add: settles_skip_all)

text \<open>
  Claim C5. Migrations are idempotent and the stored version never decreases. When
  \<open>run_migrations\<close> returns, running it again on the result with the same arguments,
  in particular from version 0, returns and leaves the schema as the first run left it:
  the tables with their columns, the indexes and the versions recorded in
  \<open>schema_version\<close>. When the version passed is at or above the target, nothing is
  changed. The stored version after a run, whether the run returns or raises, is at
  least the stored version before it. After a run to \<open>SCHEMA_VERSION\<close> that returns,
  the stored version is at least \<open>SCHEMA_VERSION\<close>, so a following run from the stored
  version changes nothing.
\<close>

theorem migrations_idempotent:
  "(run_migrations db cur tgt = Migrated d \<longrightarrow> run_migrations d cur tgt = Migrated d) \<and>
   (tgt \<le> cur \<longrightarrow> run_migrations db cur tgt = Migrated db) \<and>
   get_schema_version db \<le> get_schema_version (schema_of (run_migrations db cur tgt)) \<and>
   (run_migrations db cur SCHEMA_VERSION = Migrated d \<and> cur < SCHEMA_VERSION \<longrightarrow>
      SCHEMA_VERSION \<le> get_schema_version d \<and>
      run_migrations d (get_schema_version d) SCHEMA_VERSION = Migrated d)"
proof (intro conjI impI)
  assume r: "run_migrations db cur tgt = Migrated d"
  show "run_migrations d cur tgt = Migrated d"
  proof (cases "tgt \<le> cur")
    case True
    with r show ?thesis by (simp add: run_migrations_def)
  next
    case False
    let ?g1 = "\<lambda>db. if cur < 1 then migration_1 db else Migrated db"
    let ?g2 = "\<lambda>db. if cur < 2 then migration_2 db else Migrated db"
    let ?g3 = "\<lambda>db. if cur < 3 then migration_3 db else Migrated db"
    have s12: "settles (\<lambda>db. mig_then (?g1 db) ?g2)"
      by (intro settles_seq gate_settles settles_migration_1 settles_migration_2)
    from r False have "mig_then (mig_then (?g1 db) ?g2) ?g3 = Migrated d"
      by (simp add: run_migrations_def)
    from mig_then_Migrated[OF this]
    obtain d2 where 12: "mig_then (?g1 db) ?g2 = Migrated d2" and 3: "?g3 d2 = Migrated d"
      by blast
    have e: "schema_extends d2 d"
      using 3 migration_3_extends by (auto simp: schema_extends_refl split: if_splits)
    from s12 12 e have a: "mig_then (?g1 d) ?g2 = Migrated d"
      unfolding settles_def by blast
    have b: "?g3 d = Migrated d"
      using 3 migration_3_again by (auto split: if_splits)
    from a b False show ?thesis by (simp add: run_migrations_def)
  qed
next
  assume "tgt \<le> cur"
  then show "run_migrations db cur tgt = Migrated db" by (simp add: run_migrations_def)
next
  show "get_schema_version db \<le> get_schema_version (schema_of (run_migrations db cur tgt))"
    by (rule run_migrations_mono)
next
  assume a: "run_migrations db cur SCHEMA_VERSION = Migrated d \<and> cur < SCHEMA_VERSION"
  then have r3: "run_migrations db cur 3 = Migrated d" and c3: "cur < 3"
    by (simp_all add: SCHEMA_VERSION_def)
  then have n3: "\<not> 3 \<le> cur" by simp
  from r3 have "mig_then (mig_then (if cur < 1 then migration_1 db else Migrated db)
               (\<lambda>db'. if cur < 2 then migration_2 db' else Migrated db'))
               (\<lambda>db'. if cur < 3 then migration_3 db' else Migrated db') = Migrated d"
    unfolding run_migrations_def by (simp only: n3 if_False)
  from mig_then_Migrated[OF this] c3 obtain d2 where "migration_3 d2 = Migrated d"
    by auto
  from migration_3_version[OF this] obtain vs where "versions d = Some vs" "3 \<in> set vs" by blast
  from version_ge[OF this] show "SCHEMA_VERSION \<le> get_schema_version d"
    by (simp add: SCHEMA_VERSION_def)
  then show "run_migrations d (get_schema_version d) SCHEMA_VERSION = Migrated d"
    by (simp add: run_migrations_def)
qed

lemma is_migrated_eq: "is_migrated out \<Longrightarrow> out = Migrated (schema_of out)"
  by (cases out) (simp_all add: is_migrated_def)

theorem migrations_idempotent_witness:
  "is_migrated (run_migrations (legacy_database True) 0 SCHEMA_VERSION) \<and>
   (0::int) < SCHEMA_VERSION \<and>
   get_schema_version (legacy_database True) = 0 \<and>
   ''mediaHash'' \<notin> set (the (tables (legacy_database True) ''movies'')) \<and>
   ''mediaHash'' \<in> set (the (tables (schema_of (run_migrations (legacy_database True) 0 SCHEMA_VERSION)) ''movies'')) \<and>
   get_schema_version (schema_of (run_migrations (legacy_database True) 0 SCHEMA_VERSION)) = 3 \<and>
   run_migrations (schema_of (run_migrations (legacy_database True) 0 SCHEMA_VERSION)) 0 SCHEMA_VERSION
     = Migrated (schema_of (run_migrations (legacy_database True) 0 SCHEMA_VERSION)) \<and>
   run_migrations (schema_of (run_migrations (legacy_database True) 0 SCHEMA_VERSION))
       (get_schema_version (schema_of (run_migrations (legacy_database True) 0 SCHEMA_VERSION)))
       SCHEMA_VERSION
     = Migrated (schema_of (run_migrations (legacy_database True) 0 SCHEMA_VERSION))"
proof -
  have m: "is_migrated (run_migrations (legacy_database True) 0 SCHEMA_VERSION)" by code_simp
  have v0: "get_schema_version (legacy_database True) = 0" by code_simp
  have c0: "''mediaHash'' \<notin> set (the (tables (legacy_database True) ''movies''))" by code_simp
  have c1: "''mediaHash'' \<in> set (the (tables (schema_of (run_migrations (legacy_database True) 0 SCHEMA_VERSION)) ''movies''))"
    by code_simp
  have v3: "get_schema_version (schema_of (run_migrations (legacy_database True) 0 SCHEMA_VERSION)) = 3"
    by code_simp
  have lt: "(0::int) < SCHEMA_VERSION" by (simp add: SCHEMA_VERSION_def)
  note e = is_migrated_eq[OF m]
  note th = migrations_idempotent[of "legacy_database True" 0 SCHEMA_VERSION
      "schema_of (run_migrations (legacy_database True) 0 SCHEMA_VERSION)"]
  note a = th[THEN conjunct1, rule_format, OF e]
  note b = th[THEN conjunct2, THEN conjunct2, THEN conjunct2, rule_format, OF conjI[OF e lt]]
  show ?thesis by (intro conjI m lt v0 c0 c1 v3 a b[THEN conjunct2])
qed

end
